theory Spec2Isabelle
  imports Complex_Main "HOL-Library.Word"
begin

section \<open>Scene synthesis and compositing engine: a shallow embedding\<close>

text \<open>
  The Python sources embedded here are \<^verbatim>\<open>composite.py\<close>, \<^verbatim>\<open>shadows.py\<close>,
  \<^verbatim>\<open>reflection.py\<close> and \<^verbatim>\<open>background.py\<close> under \<^verbatim>\<open>src/apps/api/python\<close>.

  Conventions of the embedding.
  \<^item> A numpy array of two dimensions is a list of rows; \<open>shape\<close> reads its height and
    width. An array with no row has width 0 here (numpy keeps the width of an array of
    shape \<open>(0, w)\<close>; no function below builds one from a positive height).
  \<^item> \<^verbatim>\<open>uint8\<close> is \<^typ>\<open>8 word\<close>; a colour pixel is a triple of channels.
  \<^item> Python \<^verbatim>\<open>float\<close> and numpy \<^verbatim>\<open>float32\<close> values are idealised as \<^typ>\<open>real\<close>: a decimal
    literal denotes its exact value and arithmetic does not round. \<^verbatim>\<open>int(x)\<close> truncates towards
    zero, \<^verbatim>\<open>//\<close> is floor division.
  \<^item> Every raise of the source is a value \<open>Inl e\<close> of the result.
  \<^item> The functions of OpenCV that the sources call (\<^verbatim>\<open>cv2.resize\<close>, \<^verbatim>\<open>cv2.GaussianBlur\<close>,
    \<^verbatim>\<open>cv2.warpAffine\<close>, the HSV conversions) are not part of the repository: they are the
    fields of a record \<open>cv2_ops\<close> that every function calling them takes as a parameter.
    \<^verbatim>\<open>cv2.flip(a, 0)\<close> reverses the rows and \<^verbatim>\<open>COLOR_BGR2RGB\<close> swaps the first and third channel;
    these two are written out.
\<close>

subsection \<open>Values, errors and arrays\<close>

datatype py_error =
  IndexError | KeyError | ValueError | ZeroDivisionError | TypeError | AttributeError | CvError

type_synonym uint8 = "8 word"
type_synonym 'a array2 = "'a list list"
type_synonym pixel = "uint8 \<times> uint8 \<times> uint8"
type_synonym image = "pixel array2"
type_synonym gray = "uint8 array2"
type_synonym fpixel = "real \<times> real \<times> real"
type_synonym fimage = "fpixel array2"
type_synonym fgray = "real array2"

definition ebind :: "py_error + 'a \<Rightarrow> ('a \<Rightarrow> py_error + 'b) \<Rightarrow> py_error + 'b" where
  "ebind m f = (case m of Inl e \<Rightarrow> Inl e | Inr v \<Rightarrow> f v)"

definition py_int :: "real \<Rightarrow> int" where
  \<comment> \<open>\<^verbatim>\<open>int(x)\<close> of a float: truncation towards zero\<close>
  "py_int r = (if 0 \<le> r then \<lfloor>r\<rfloor> else \<lceil>r\<rceil>)"

definition shape :: "'a array2 \<Rightarrow> nat \<times> nat" where
  \<comment> \<open>\<^verbatim>\<open>a.shape[:2]\<close>: (height, width)\<close>
  "shape a = (length a, case a of [] \<Rightarrow> 0 | r # _ \<Rightarrow> length r)"

definition rect :: "nat \<Rightarrow> nat \<Rightarrow> 'a array2 \<Rightarrow> bool" where
  \<comment> \<open>the array has exactly \<open>h\<close> rows of \<open>w\<close> entries each\<close>
  "rect h w a = (length a = h \<and> list_all (\<lambda>r. length r = w) a)"

record cv2_ops =
  cv2_resize_img :: "image \<Rightarrow> int \<times> int \<Rightarrow> py_error + image"
  cv2_resize_gray :: "gray \<Rightarrow> int \<times> int \<Rightarrow> py_error + gray"
  cv2_resize_area_img :: "image \<Rightarrow> int \<times> int \<Rightarrow> py_error + image"
  cv2_resize_area_gray :: "gray \<Rightarrow> int \<times> int \<Rightarrow> py_error + gray"
  cv2_gaussian_blur_img :: "image \<Rightarrow> int \<Rightarrow> py_error + image"
  cv2_gaussian_blur_gray :: "gray \<Rightarrow> int \<Rightarrow> py_error + gray"
  cv2_warp_shift_img :: "image \<Rightarrow> int \<Rightarrow> py_error + image"
  cv2_warp_shift_gray :: "gray \<Rightarrow> int \<Rightarrow> py_error + gray"
  cv2_bgr2hsv :: "image \<Rightarrow> py_error + image"
  cv2_hsv2bgr :: "image \<Rightarrow> py_error + image"

definition to_uint8 :: "real \<Rightarrow> uint8" where
  \<comment> \<open>\<^verbatim>\<open>x.astype(np.uint8)\<close> of a float: truncation, then the low eight bits\<close>
  "to_uint8 r = word_of_int (py_int r)"

definition of_uint8 :: "uint8 \<Rightarrow> real" where
  \<comment> \<open>\<^verbatim>\<open>x.astype(np.float32)\<close> of a byte\<close>
  "of_uint8 v = real (unat v)"

definition clip255 :: "real \<Rightarrow> real" where
  \<comment> \<open>\<^verbatim>\<open>np.clip(x, 0, 255)\<close>\<close>
  "clip255 r = min (max r 0) 255"

definition size2 :: "'a array2 \<Rightarrow> nat" where
  \<comment> \<open>\<^verbatim>\<open>a.size\<close>\<close>
  "size2 a = fst (shape a) * snd (shape a)"

definition py_range :: "int \<Rightarrow> int \<Rightarrow> int list" where
  \<comment> \<open>\<^verbatim>\<open>range(a, b)\<close>\<close>
  "py_range a b = [a..b - 1]"

definition slice_norm :: "int \<Rightarrow> nat \<Rightarrow> nat" where
  \<comment> \<open>a slice bound on an axis of length \<open>n\<close>: a negative bound counts from the end, and
      every bound is clamped into \<open>0..n\<close>\<close>
  "slice_norm i n = (if i < 0 then nat (max (i + int n) 0) else min (nat i) n)"

definition py_slice :: "int \<Rightarrow> int \<Rightarrow> 'a list \<Rightarrow> 'a list" where
  \<comment> \<open>\<^verbatim>\<open>xs[lo:hi]\<close>\<close>
  "py_slice lo hi xs =
     (let n = length xs; a = slice_norm lo n; b = slice_norm hi n
      in take (b - a) (drop a xs))"

definition slice2 :: "int \<Rightarrow> int \<Rightarrow> int \<Rightarrow> int \<Rightarrow> 'a array2 \<Rightarrow> 'a array2" where
  \<comment> \<open>\<^verbatim>\<open>a[y1:y2, x1:x2]\<close>\<close>
  "slice2 y1 y2 x1 x2 a = map (py_slice x1 x2) (py_slice y1 y2 a)"

definition bdim :: "nat \<Rightarrow> nat \<Rightarrow> nat" where
  "bdim a b = (if a = 1 then b else a)"

definition broadcast_shapes :: "nat \<times> nat \<Rightarrow> nat \<times> nat \<Rightarrow> (nat \<times> nat) option" where
  \<comment> \<open>numpy broadcasting of two shapes: the lengths of an axis agree, or one of them is 1\<close>
  "broadcast_shapes s1 s2 =
     (let (h1, w1) = s1; (h2, w2) = s2
      in if (h1 = h2 \<or> h1 = 1 \<or> h2 = 1) \<and> (w1 = w2 \<or> w1 = 1 \<or> w2 = 1)
         then Some (bdim h1 h2, bdim w1 w2) else None)"

definition expand :: "nat \<times> nat \<Rightarrow> 'a array2 \<Rightarrow> 'a array2" where
  \<comment> \<open>an array stretched to a shape it broadcasts to\<close>
  "expand s a =
     (let (h, w) = s
      in map (\<lambda>r. if length r = w then r else replicate w (hd r))
           (if length a = h then a else replicate h (hd a)))"

definition np_map2 :: "('a \<Rightarrow> 'b \<Rightarrow> 'c) \<Rightarrow> 'a array2 \<Rightarrow> 'b array2 \<Rightarrow> py_error + 'c array2" where
  \<comment> \<open>an elementwise binary operation of numpy; shapes that do not broadcast raise ValueError\<close>
  "np_map2 f a b =
     (case broadcast_shapes (shape a) (shape b) of
        None \<Rightarrow> Inl ValueError
      | Some s \<Rightarrow> Inr (map2 (map2 f) (expand s a) (expand s b)))"

definition assign_slice2 ::
  "'a array2 \<Rightarrow> int \<Rightarrow> int \<Rightarrow> int \<Rightarrow> int \<Rightarrow> 'a array2 \<Rightarrow> py_error + 'a array2" where
  \<comment> \<open>\<^verbatim>\<open>a[y1:y2, x1:x2] = v\<close>, returning the updated array; \<open>v\<close> must broadcast to the region\<close>
  "assign_slice2 a y1 y2 x1 x2 v =
     (let (h, w) = shape a;
          r0 = slice_norm y1 h; r1 = max r0 (slice_norm y2 h);
          c0 = slice_norm x1 w; c1 = max c0 (slice_norm x2 w);
          (vh, vw) = shape v
      in if (vh = r1 - r0 \<or> vh = 1) \<and> (vw = c1 - c0 \<or> vw = 1)
         then Inr (take r0 a
                   @ map2 (\<lambda>row vr. take c0 row @ vr @ drop c1 row)
                       (take (r1 - r0) (drop r0 a)) (expand (r1 - r0, c1 - c0) v)
                   @ drop r1 a)
         else Inl ValueError)"

definition fill_row :: "'a array2 \<Rightarrow> int \<Rightarrow> 'a \<Rightarrow> py_error + 'a array2" where
  \<comment> \<open>\<^verbatim>\<open>a[y, :] = v\<close> for one entry \<open>v\<close>: an index outside \<open>-h..h-1\<close> raises IndexError, a
      negative index counts from the end\<close>
  "fill_row a y v =
     (let h = int (length a)
      in if - h \<le> y \<and> y < h
         then (let i = nat (if y < 0 then y + h else y)
               in Inr (a[i := map (\<lambda>_. v) (a ! i)]))
         else Inl IndexError)"

fun fill_rows :: "(int \<Rightarrow> 'a) \<Rightarrow> int list \<Rightarrow> 'a array2 \<Rightarrow> py_error + 'a array2" where
  \<comment> \<open>\<^verbatim>\<open>for y in ys: a[y, :] = f(y)\<close>\<close>
  "fill_rows f [] a = Inr a"
| "fill_rows f (y # ys) a = ebind (fill_row a y (f y)) (fill_rows f ys)"

definition list_min :: "nat list \<Rightarrow> nat" where
  "list_min xs = fold min (tl xs) (hd xs)"

definition list_max :: "nat list \<Rightarrow> nat" where
  "list_max xs = fold max (tl xs) (hd xs)"

definition coords_of :: "gray \<Rightarrow> (nat \<times> nat) list" where
  \<comment> \<open>\<^verbatim>\<open>np.column_stack(np.where(mask > 0))\<close>: the (row, column) pairs of the positive entries\<close>
  "coords_of msk =
     concat (map (\<lambda>(y, row). map (\<lambda>x. (y, x)) (filter (\<lambda>x. 0 < row ! x) [0..<length row]))
               (enumerate 0 msk))"

subsection \<open>Background: \<^verbatim>\<open>BackgroundGenerator.create_studio_background\<close>\<close>

record bg_config =
  top_color :: fpixel
  horizon_color :: fpixel
  floor_color :: fpixel
  horizon_position :: real
  floor_gradient :: "real option"

definition studio_white :: bg_config where
  "studio_white = \<lparr> top_color = (250, 250, 250), horizon_color = (240, 240, 240),
     floor_color = (215, 215, 215), horizon_position = 0.65, floor_gradient = Some 0.3 \<rparr>"

definition studio_grey :: bg_config where
  "studio_grey = \<lparr> top_color = (235, 235, 235), horizon_color = (210, 210, 210),
     floor_color = (175, 175, 175), horizon_position = 0.65, floor_gradient = Some 0.35 \<rparr>"

definition studio_dark :: bg_config where
  "studio_dark = \<lparr> top_color = (90, 90, 90), horizon_color = (60, 60, 60),
     floor_color = (35, 35, 35), horizon_position = 0.65, floor_gradient = Some 0.4 \<rparr>"

definition showroom :: bg_config where
  "showroom = \<lparr> top_color = (248, 248, 250), horizon_color = (230, 230, 235),
     floor_color = (195, 195, 200), horizon_position = 0.60, floor_gradient = Some 0.35 \<rparr>"

definition outdoor_neutral :: bg_config where
  "outdoor_neutral = \<lparr> top_color = (200, 210, 220), horizon_color = (180, 185, 190),
     floor_color = (160, 165, 170), horizon_position = 0.55, floor_gradient = Some 0.25 \<rparr>"

definition dealership :: bg_config where
  "dealership = \<lparr> top_color = (245, 245, 247), horizon_color = (225, 225, 230),
     floor_color = (185, 185, 195), horizon_position = 0.62, floor_gradient = Some 0.4 \<rparr>"

definition PRESETS :: "string \<rightharpoonup> bg_config" where
  "PRESETS = map_of
     [(''studio_white'', studio_white), (''studio_grey'', studio_grey),
      (''studio_dark'', studio_dark), (''showroom'', showroom),
      (''outdoor_neutral'', outdoor_neutral), (''dealership'', dealership)]"

definition ease_in_out :: "real \<Rightarrow> real" where
  "ease_in_out t = t * t * (3 - 2 * t)"

definition lerp_color :: "fpixel \<Rightarrow> fpixel \<Rightarrow> real \<Rightarrow> pixel" where
  \<comment> \<open>\<^verbatim>\<open>(a + (b - a) * t).astype(np.uint8)\<close>\<close>
  "lerp_color a b t =
     (case a of (a0, a1, a2) \<Rightarrow> case b of (b0, b1, b2) \<Rightarrow>
        (to_uint8 (a0 + (b0 - a0) * t), to_uint8 (a1 + (b1 - a1) * t), to_uint8 (a2 + (b2 - a2) * t)))"

definition wall_color :: "bg_config \<Rightarrow> int \<Rightarrow> int \<Rightarrow> pixel" where
  \<comment> \<open>the body of the first loop, for row \<open>y\<close>\<close>
  "wall_color config horizon_y y =
     (let t = real_of_int y / real_of_int horizon_y;
          t = ease_in_out t
      in lerp_color (top_color config) (horizon_color config) t)"

definition floor_color_at :: "bg_config \<Rightarrow> int \<Rightarrow> int \<Rightarrow> int \<Rightarrow> pixel" where
  \<comment> \<open>the body of the second loop, for row \<open>y\<close>\<close>
  "floor_color_at config height horizon_y y =
     (let floor_grad = (case floor_gradient config of Some g \<Rightarrow> g | None \<Rightarrow> 0.3);
          t = real_of_int (y - horizon_y) / real_of_int (height - horizon_y);
          t = ease_in_out (t * floor_grad + (1 - floor_grad))
      in lerp_color (horizon_color config) (floor_color config) t)"

definition bg_config_of :: "string \<Rightarrow> bg_config option \<Rightarrow> bg_config" where
  \<comment> \<open>lines 99 to 102: the custom configuration if there is one, else
      \<^verbatim>\<open>PRESETS.get(preset, PRESETS['studio_white'])\<close>\<close>
  "bg_config_of preset custom_config =
     (case custom_config of
        Some c \<Rightarrow> c
      | None \<Rightarrow> (case PRESETS preset of Some c \<Rightarrow> c | None \<Rightarrow> studio_white))"

definition create_studio_background ::
  "int \<Rightarrow> int \<Rightarrow> string \<Rightarrow> bg_config option \<Rightarrow> py_error + image" where
  "create_studio_background width height preset custom_config =
     (let config = bg_config_of preset custom_config;
          horizon_y = py_int (real_of_int height * horizon_position config)
      in if height < 0 \<or> width < 0 then Inl ValueError
         else
           let background = replicate (nat height) (replicate (nat width) (0, 0, 0))
           in ebind (fill_rows (wall_color config horizon_y) (py_range 0 horizon_y) background)
                (fill_rows (floor_color_at config height horizon_y) (py_range horizon_y height)))"

subsection \<open>Shadows: \<^verbatim>\<open>ShadowGenerator\<close>\<close>

record shadow_config =
  blur_radius :: int
  opacity :: real
  offset_y :: int
  scale_y :: real
  scale_x :: real
  color :: "int \<times> int \<times> int"
  gradient :: bool

definition shadow_contact :: shadow_config where
  "shadow_contact = \<lparr> blur_radius = 5, opacity = 0.45, offset_y = 0, scale_y = 0.015,
     scale_x = 0.95, color = (0, 0, 0), gradient = False \<rparr>"

definition shadow_ambient :: shadow_config where
  "shadow_ambient = \<lparr> blur_radius = 35, opacity = 0.25, offset_y = 5, scale_y = 0.12,
     scale_x = 1.1, color = (0, 0, 0), gradient = True \<rparr>"

definition shadow_drop :: shadow_config where
  "shadow_drop = \<lparr> blur_radius = 80, opacity = 0.15, offset_y = 15, scale_y = 0.20,
     scale_x = 1.3, color = (0, 0, 0), gradient = True \<rparr>"

definition SHADOW_CONFIG :: "string \<rightharpoonup> shadow_config" where
  "SHADOW_CONFIG = map_of
     [(''contact'', shadow_contact), (''ambient'', shadow_ambient), (''drop'', shadow_drop)]"

definition apply_shadow_gradient :: "gray \<Rightarrow> gray" where
  \<comment> \<open>\<^verbatim>\<open>_apply_shadow_gradient\<close>; \<^verbatim>\<open>dist ** 1.5\<close> is the real power\<close>
  "apply_shadow_gradient shadow =
     (let (h, w) = shape shadow;
          center_x = real w / 2;
          x_grad = (\<lambda>x. 1 - ((\<bar>real x - center_x\<bar> / center_x) powr 1.5) * 0.5);
          y_grad = (\<lambda>y. 1 - (real y / real h) * 0.7)
      in map (\<lambda>(y, row). map (\<lambda>(x, v). to_uint8 (of_uint8 v * (x_grad x * y_grad y)))
                            (enumerate 0 row))
           (enumerate 0 shadow))"

definition shadow_from_bbox ::
  "cv2_ops \<Rightarrow> gray \<Rightarrow> shadow_config \<Rightarrow> int \<Rightarrow> int \<Rightarrow> int \<Rightarrow> int \<Rightarrow> int \<Rightarrow> int \<Rightarrow> py_error + gray" where
  \<comment> \<open>\<^verbatim>\<open>create_shadow_layer\<close> from line 94 on, once the bounding box of the mask is known\<close>
  "shadow_from_bbox cv msk config h w y_min x_min y_max x_max =
     (let car_height = y_max - y_min;
          car_width = x_max - x_min;
          shadow_height = py_int (real_of_int car_height * scale_y config);
          shadow_width = py_int (real_of_int car_width * scale_x config);
          strip = slice2 (y_max - shadow_height) y_max x_min x_max msk;
          bottom_strip = (if size2 strip = 0
                          then slice2 (max 0 (y_max - 20)) y_max x_min x_max msk else strip)
      in ebind (if shadow_height > 0 \<and> shadow_width > 0
                then cv2_resize_gray cv bottom_strip (shadow_width, shadow_height)
                else Inr (replicate (nat (max 1 shadow_height))
                            (replicate (nat (max 1 shadow_width)) 0))) (\<lambda>shadow.
         ebind (if scale_y config < 1
                then cv2_resize_gray cv shadow (shadow_width, max 1 shadow_height)
                else Inr shadow) (\<lambda>shadow.
         ebind (let shadow = (if gradient config then apply_shadow_gradient shadow else shadow);
                    blur = blur_radius config
                in if blur > 0 then cv2_gaussian_blur_gray cv shadow (blur * 2 + 1)
                   else Inr shadow) (\<lambda>shadow.
         let shadow_full = replicate (nat h) (replicate (nat w) (0 :: real));
             sh_h = int (fst (shape shadow));
             sh_w = int (snd (shape shadow));
             shadow_y = y_max + offset_y config;
             shadow_x = x_min + (car_width - shadow_width) div 2;
             sy1 = max 0 shadow_y;
             sy2 = min h (shadow_y + sh_h);
             sx1 = max 0 shadow_x;
             sx2 = min w (shadow_x + sh_w);
             oy1 = max 0 (- shadow_y);
             oy2 = oy1 + (sy2 - sy1);
             ox1 = max 0 (- shadow_x);
             ox2 = ox1 + (sx2 - sx1)
         in ebind (if sy2 > sy1 \<and> sx2 > sx1 \<and> oy2 \<le> sh_h \<and> ox2 \<le> sh_w
                   then assign_slice2 shadow_full sy1 sy2 sx1 sx2
                          (map (map of_uint8) (slice2 oy1 oy2 ox1 ox2 shadow))
                   else Inr shadow_full) (\<lambda>shadow_full.
            Inr (map (map (\<lambda>v. to_uint8 (v * opacity config))) shadow_full))))))"

definition create_shadow_layer ::
  "cv2_ops \<Rightarrow> gray \<Rightarrow> string \<Rightarrow> shadow_config option \<Rightarrow> py_error + gray" where
  "create_shadow_layer cv msk shadow_type custom_config =
     (let config = (case custom_config of
                      Some c \<Rightarrow> c
                    | None \<Rightarrow> (case SHADOW_CONFIG shadow_type of
                                 Some c \<Rightarrow> c | None \<Rightarrow> shadow_ambient));
          (h, w) = shape msk;
          coords = coords_of msk
      in if coords = [] then Inr (replicate h (replicate w 0))
         else shadow_from_bbox cv msk config (int h) (int w)
                (int (list_min (map fst coords))) (int (list_min (map snd coords)))
                (int (list_max (map fst coords))) (int (list_max (map snd coords))))"

definition create_all_shadows :: "cv2_ops \<Rightarrow> gray \<Rightarrow> py_error + (string \<rightharpoonup> gray)" where
  "create_all_shadows cv msk =
     ebind (create_shadow_layer cv msk ''contact'' None) (\<lambda>c.
     ebind (create_shadow_layer cv msk ''ambient'' None) (\<lambda>a.
     ebind (create_shadow_layer cv msk ''drop'' None) (\<lambda>d.
     Inr [''contact'' \<mapsto> c, ''ambient'' \<mapsto> a, ''drop'' \<mapsto> d])))"

subsection \<open>Layout: \<^verbatim>\<open>Compositor.auto_position_car\<close> and \<^verbatim>\<open>Compositor.scale_car_to_fit\<close>\<close>

definition auto_position_car :: "int \<times> int \<Rightarrow> int \<times> int \<Rightarrow> real \<Rightarrow> int \<times> int" where
  "auto_position_car background_size car_size horizon_ratio =
     (let (bg_w, bg_h) = background_size;
          (car_w, car_h) = car_size;
          x = (bg_w - car_w) div 2;
          horizon_y = py_int (real_of_int bg_h * horizon_ratio);
          y = horizon_y - car_h + py_int (real_of_int car_h * 0.05)
      in (x, y))"

definition default_car_position :: "int \<Rightarrow> int \<Rightarrow> int \<Rightarrow> int \<Rightarrow> int \<times> int" where
  \<comment> \<open>the branch \<^verbatim>\<open>car_position is None\<close> of \<^verbatim>\<open>composite_final\<close> (lines 82 to 85)\<close>
  "default_car_position out_w out_h car_w car_h =
     (let horizon_y = py_int (real_of_int out_h * 0.65);
          x = (out_w - car_w) div 2;
          y = horizon_y - car_h + py_int (real_of_int car_h * 0.1)
      in (x, y))"

definition scale_car_to_fit ::
  "cv2_ops \<Rightarrow> image \<Rightarrow> gray \<Rightarrow> int \<Rightarrow> int \<Rightarrow> real \<Rightarrow> real \<Rightarrow> py_error + (image \<times> gray)" where
  "scale_car_to_fit cv car_image car_mask target_width target_height max_width_ratio max_height_ratio =
     (let (car_h, car_w) = shape car_image;
          max_w = py_int (real_of_int target_width * max_width_ratio);
          max_h = py_int (real_of_int target_height * max_height_ratio)
      in if car_w = 0 \<or> car_h = 0 then Inl ZeroDivisionError
         else
           let scale = min (real_of_int max_w / real car_w) (real_of_int max_h / real car_h)
           in if scale < 1 then
                (let new_w = py_int (real car_w * scale);
                     new_h = py_int (real car_h * scale)
                 in ebind (cv2_resize_area_img cv car_image (new_w, new_h)) (\<lambda>img.
                    ebind (cv2_resize_area_gray cv car_mask (new_w, new_h)) (\<lambda>msk.
                    Inr (img, msk))))
              else Inr (car_image, car_mask))"

definition spec_scale_factor :: "real \<Rightarrow> real \<Rightarrow> int \<Rightarrow> int \<Rightarrow> nat \<Rightarrow> nat \<Rightarrow> real" where
  \<comment> \<open>the scale factor in the words of the specification:
      \<open>min(maxWidthRatio \<cdot> canvasWidth / subjectWidth, maxHeightRatio \<cdot> canvasHeight / subjectHeight)\<close>\<close>
  "spec_scale_factor max_width_ratio max_height_ratio canvas_w canvas_h subject_w subject_h =
     min (max_width_ratio * real_of_int canvas_w / real subject_w)
         (max_height_ratio * real_of_int canvas_h / real subject_h)"

subsection \<open>Pixels\<close>

definition px_float :: "pixel \<Rightarrow> fpixel" where
  \<comment> \<open>\<^verbatim>\<open>astype(np.float32)\<close> on the three channels\<close>
  "px_float p = (case p of (a, b, c) \<Rightarrow> (of_uint8 a, of_uint8 b, of_uint8 c))"

definition px_uint8 :: "fpixel \<Rightarrow> pixel" where
  \<comment> \<open>\<^verbatim>\<open>np.clip(p, 0, 255).astype(np.uint8)\<close> on the three channels\<close>
  "px_uint8 p = (case p of (a, b, c) \<Rightarrow>
     (to_uint8 (clip255 a), to_uint8 (clip255 b), to_uint8 (clip255 c)))"

definition px_scale :: "fpixel \<Rightarrow> real \<Rightarrow> fpixel" where
  "px_scale p k = (case p of (a, b, c) \<Rightarrow> (a * k, b * k, c * k))"

definition px_add :: "fpixel \<Rightarrow> fpixel \<Rightarrow> fpixel" where
  "px_add p q = (case p of (a, b, c) \<Rightarrow> case q of (d, e, f) \<Rightarrow> (a + d, b + e, c + f))"

definition bgr2rgb :: "pixel \<Rightarrow> pixel" where
  \<comment> \<open>\<^verbatim>\<open>cv2.COLOR_BGR2RGB\<close>: the first and the third channel change places\<close>
  "bgr2rgb p = (case p of (a, b, c) \<Rightarrow> (c, b, a))"

definition chan :: "nat \<Rightarrow> fpixel \<Rightarrow> real" where
  \<comment> \<open>channel \<open>c\<close> of a pixel, \<^verbatim>\<open>p[c]\<close> for \<open>c\<close> in \<^verbatim>\<open>range(3)\<close>\<close>
  "chan c p = (case p of (p0, p1, p2) \<Rightarrow> if c = 0 then p0 else if c = 1 then p1 else p2)"

definition set_chan :: "nat \<Rightarrow> fpixel \<Rightarrow> real \<Rightarrow> fpixel" where
  "set_chan c p v = (case p of (p0, p1, p2) \<Rightarrow>
     if c = 0 then (v, p1, p2) else if c = 1 then (p0, v, p2) else (p0, p1, v))"

definition assign_all :: "('a \<Rightarrow> 'b \<Rightarrow> 'a) \<Rightarrow> 'a array2 \<Rightarrow> 'b array2 \<Rightarrow> py_error + 'a array2" where
  \<comment> \<open>an assignment to a whole plane of \<open>a\<close> (\<^verbatim>\<open>a[:, :, c] = v\<close>): \<open>v\<close> must broadcast to
      the shape of \<open>a\<close>; \<open>f\<close> stores one value into one entry\<close>
  "assign_all f a v =
     (let (h, w) = shape a; (vh, vw) = shape v
      in if (vh = h \<or> vh = 1) \<and> (vw = w \<or> vw = 1)
         then Inr (map2 (map2 f) a (expand (h, w) v))
         else Inl ValueError)"

definition channel_op ::
  "(real \<Rightarrow> real \<Rightarrow> real) \<Rightarrow> fimage \<Rightarrow> fgray \<Rightarrow> nat \<Rightarrow> py_error + fimage" where
  \<comment> \<open>\<^verbatim>\<open>base[:, :, c] = f(base[:, :, c], s)\<close>\<close>
  "channel_op f base s c =
     ebind (np_map2 (\<lambda>p v. f (chan c p) v) base s) (assign_all (set_chan c) base)"

fun channel_loop ::
  "(real \<Rightarrow> real \<Rightarrow> real) \<Rightarrow> fgray \<Rightarrow> nat list \<Rightarrow> fimage \<Rightarrow> py_error + fimage" where
  \<comment> \<open>\<^verbatim>\<open>for c in cs: base[:, :, c] = f(base[:, :, c], s)\<close>\<close>
  "channel_loop f s [] base = Inr base"
| "channel_loop f s (c # cs) base = ebind (channel_op f base s c) (channel_loop f s cs)"

subsection \<open>Reflection: \<^verbatim>\<open>ReflectionGenerator\<close>\<close>

definition ease_out :: "real \<Rightarrow> real" where
  "ease_out t = t * t"

definition desaturate :: "cv2_ops \<Rightarrow> image \<Rightarrow> real \<Rightarrow> py_error + image" where
  \<comment> \<open>\<^verbatim>\<open>_desaturate\<close>: the second channel of the HSV image is scaled by \<open>1 - amount\<close>\<close>
  "desaturate cv img amount =
     ebind (cv2_bgr2hsv cv img) (\<lambda>hsv.
     cv2_hsv2bgr cv
       (map (map (\<lambda>p. px_uint8 (case px_float p of (h, s, v) \<Rightarrow> (h, s * (1 - amount), v)))) hsv))"

definition create_reflection ::
  "cv2_ops \<Rightarrow> image \<Rightarrow> gray \<Rightarrow> real \<Rightarrow> real \<Rightarrow> int \<Rightarrow> int \<Rightarrow> py_error + (image \<times> gray)" where
  "create_reflection cv car_image car_mask opacity' fade_height blur gap =
     (let (h, w) = shape car_image;
          reflection = rev car_image;
          reflection_mask = rev car_mask;
          gradient0 = replicate h (replicate w (0 :: real));
          fade_end = py_int (real h * fade_height)
      in ebind (fill_rows (\<lambda>y. 1 - ease_out (real_of_int y / real_of_int fade_end))
                  (py_range 0 fade_end) gradient0) (\<lambda>gradient'.
         ebind (np_map2 (\<lambda>m g. to_uint8 ((of_uint8 m / 255 * g * opacity') * 255))
                  reflection_mask gradient') (\<lambda>reflection_mask.
         ebind (if blur > 0
                then ebind (cv2_gaussian_blur_img cv reflection (blur * 2 + 1)) (\<lambda>r.
                     ebind (cv2_gaussian_blur_gray cv reflection_mask (blur * 2 + 1)) (\<lambda>m.
                     Inr (r, m)))
                else Inr (reflection, reflection_mask)) (\<lambda>(reflection, reflection_mask).
         ebind (desaturate cv reflection 0.2) (\<lambda>reflection.
         if gap > 0
         then ebind (cv2_warp_shift_img cv reflection gap) (\<lambda>r.
              ebind (cv2_warp_shift_gray cv reflection_mask gap) (\<lambda>m.
              Inr (r, m)))
         else Inr (reflection, reflection_mask))))))"

definition create_reflection_extended ::
  "cv2_ops \<Rightarrow> image \<Rightarrow> gray \<Rightarrow> int \<Rightarrow> int \<Rightarrow> real \<Rightarrow> real \<Rightarrow> py_error + (image \<times> gray \<times> int)" where
  "create_reflection_extended cv car_image car_mask background_height car_y_position opacity'
       max_reflection_height =
     (let (car_h, car_w) = shape car_image;
          coords = coords_of car_mask;
          zeros = (map (map (\<lambda>_. (0, 0, 0))) car_image, replicate car_h (replicate car_w 0), 0)
      in if coords = [] then Inr zeros
         else
           let y_min = int (list_min (map fst coords));
               y_max = int (list_max (map fst coords));
               actual_height = y_max - y_min;
               reflection_height = py_int (real_of_int actual_height * max_reflection_height);
               bottom_portion = py_slice (y_max - reflection_height) y_max car_image;
               bottom_mask = py_slice (y_max - reflection_height) y_max car_mask
           in if size2 bottom_portion = 0 then Inr zeros
              else
                let reflection = rev bottom_portion;
                    reflection_mask = rev bottom_mask;
                    ref_h = length reflection;
                    gradient0 = replicate ref_h (replicate car_w (0 :: real))
                in ebind (fill_rows (\<lambda>y. 1 - (real_of_int y / real ref_h) powr 0.8)
                            (py_range 0 (int ref_h)) gradient0) (\<lambda>gradient'.
                   ebind (np_map2 (\<lambda>m g. to_uint8 (of_uint8 m / 255 * g * opacity' * 255))
                            reflection_mask gradient') (\<lambda>reflection_mask.
                   ebind (cv2_gaussian_blur_img cv reflection 3) (\<lambda>reflection.
                   ebind (desaturate cv reflection 0.25) (\<lambda>reflection.
                   Inr (reflection, reflection_mask, car_y_position + int car_h))))))"

definition reflection_window ::
  "nat \<times> nat \<Rightarrow> nat \<times> nat \<Rightarrow> int \<Rightarrow> int \<Rightarrow> int \<times> int \<times> int \<times> int \<times> int \<times> int \<times> int \<times> int" where
  \<comment> \<open>lines 192 to 196 of \<^verbatim>\<open>add_reflection_to_composite\<close>:
      \<open>(y1, y2, x1, x2, ry1, ry2, rx1, rx2)\<close>\<close>
  "reflection_window bg_shape ref_shape x y =
     (let (bg_h, bg_w) = bg_shape; (ref_h, ref_w) = ref_shape;
          y1 = max 0 y; y2 = min (int bg_h) (y + int ref_h);
          x1 = max 0 x; x2 = min (int bg_w) (x + int ref_w);
          ry1 = max 0 (- y); ry2 = min (int ref_h) (int bg_h - y);
          rx1 = max 0 (- x); rx2 = min (int ref_w) (int bg_w - x)
      in (y1, y2, x1, x2, ry1, ry2, rx1, rx2))"

definition add_reflection_to_composite ::
  "image \<Rightarrow> image \<Rightarrow> gray \<Rightarrow> int \<Rightarrow> int \<Rightarrow> py_error + image" where
  "add_reflection_to_composite background reflection reflection_mask x y =
     (let result = map (map px_float) background;
          (y1, y2, x1, x2, ry1, ry2, rx1, rx2) =
            reflection_window (shape background) (shape reflection) x y
      in if y2 \<le> y1 \<or> x2 \<le> x1 then Inr background
         else
           let bg_region = slice2 y1 y2 x1 x2 result;
               ref_region = map (map px_float) (slice2 ry1 ry2 rx1 rx2 reflection);
               mask_region = map (map (\<lambda>m. of_uint8 m / 255)) (slice2 ry1 ry2 rx1 rx2 reflection_mask)
           in ebind (np_map2 (\<lambda>b m. px_scale b (1 - m)) bg_region mask_region) (\<lambda>t1.
              ebind (np_map2 px_scale ref_region mask_region) (\<lambda>t2.
              ebind (np_map2 px_add t1 t2) (\<lambda>v.
              ebind (assign_slice2 result y1 y2 x1 x2 v) (\<lambda>result.
              Inr (map (map px_uint8) result))))))"

subsection \<open>Compositing: \<^verbatim>\<open>Compositor\<close> and \<^verbatim>\<open>ShadowGenerator.composite_shadows\<close>\<close>

definition layer_window ::
  "nat \<times> nat \<Rightarrow> nat \<times> nat \<Rightarrow> int \<Rightarrow> int \<Rightarrow> int \<times> int \<times> int \<times> int \<times> int \<times> int \<times> int \<times> int" where
  \<comment> \<open>lines 134 to 138 of \<^verbatim>\<open>_blend_layer\<close>: \<open>(x1, y1, x2, y2, lx1, ly1, lx2, ly2)\<close>\<close>
  "layer_window base_shape layer_shape x y =
     (let (bh, bw) = base_shape; (lh, lw) = layer_shape;
          x1 = max 0 x; y1 = max 0 y;
          x2 = min (int bw) (x + int lw); y2 = min (int bh) (y + int lh);
          lx1 = max 0 (- x); ly1 = max 0 (- y);
          lx2 = lx1 + (x2 - x1); ly2 = ly1 + (y2 - y1)
      in (x1, y1, x2, y2, lx1, ly1, lx2, ly2))"

definition blend_layer :: "fimage \<Rightarrow> image \<Rightarrow> gray \<Rightarrow> int \<Rightarrow> int \<Rightarrow> py_error + fimage" where
  \<comment> \<open>\<^verbatim>\<open>_blend_layer\<close>; the base, modified in place by the source, is returned. The layer
      has three channels, so the conversion from BGR to RGB is always made\<close>
  "blend_layer base layer msk x y =
     (let (x1, y1, x2, y2, lx1, ly1, lx2, ly2) = layer_window (shape base) (shape layer) x y
      in if x2 \<le> x1 \<or> y2 \<le> y1 then Inr base
         else
           let base_region = slice2 y1 y2 x1 x2 base;
               layer_region = slice2 ly1 ly2 lx1 lx2 layer;
               mask_region = map (map (\<lambda>m. of_uint8 m / 255)) (slice2 ly1 ly2 lx1 lx2 msk);
               layer_region = map (map (\<lambda>p. px_float (bgr2rgb p))) layer_region
           in ebind (np_map2 (\<lambda>b m. px_scale b (1 - m)) base_region mask_region) (\<lambda>t1.
              ebind (np_map2 px_scale layer_region mask_region) (\<lambda>t2.
              ebind (np_map2 px_add t1 t2) (\<lambda>v.
              assign_slice2 base y1 y2 x1 x2 v))))"

definition blend_shadow :: "cv2_ops \<Rightarrow> fimage \<Rightarrow> gray \<Rightarrow> int \<Rightarrow> int \<Rightarrow> py_error + fimage" where
  \<comment> \<open>\<^verbatim>\<open>_blend_shadow\<close>; the position \<open>(x, y)\<close> is not used by the source\<close>
  "blend_shadow cv base shadow x y =
     (let (bh, bw) = shape base; (sh, sw) = shape shadow
      in ebind (if sh \<noteq> bh \<or> sw \<noteq> bw then cv2_resize_gray cv shadow (int bw, int bh)
                else Inr shadow) (\<lambda>shadow.
         let shadow_norm = map (map (\<lambda>v. of_uint8 v / 255)) shadow
         in channel_loop (\<lambda>b s. b * (1 - s)) shadow_norm [0, 1, 2] base))"

fun blend_shadows ::
  "cv2_ops \<Rightarrow> (string \<rightharpoonup> gray option) \<Rightarrow> string list \<Rightarrow> fimage \<Rightarrow> py_error + fimage" where
  \<comment> \<open>the loop of \<^verbatim>\<open>composite_final\<close> over the shadow types (lines 95 to 108)\<close>
  "blend_shadows cv shadows [] result = Inr result"
| "blend_shadows cv shadows (shadow_type # rest) result =
     (case shadows shadow_type of
        None \<Rightarrow> blend_shadows cv shadows rest result
      | Some None \<Rightarrow> blend_shadows cv shadows rest result
      | Some (Some shadow) \<Rightarrow>
          if size2 shadow = 0 then blend_shadows cv shadows rest result
          else ebind (blend_shadow cv result shadow 0 0) (blend_shadows cv shadows rest))"

definition composite_final ::
  "cv2_ops \<Rightarrow> image \<Rightarrow> image \<Rightarrow> gray \<Rightarrow> (string \<rightharpoonup> gray option) \<Rightarrow> image option \<Rightarrow> gray option
     \<Rightarrow> (int \<times> int) option \<Rightarrow> (int \<times> int) option \<Rightarrow> py_error + image" where
  "composite_final cv background car_image car_mask shadows reflection reflection_mask
       car_position output_size =
     ebind (case output_size of
              Some (out_w, out_h) \<Rightarrow>
                ebind (cv2_resize_img cv background (out_w, out_h)) (\<lambda>b. Inr (b, out_w, out_h))
            | None \<Rightarrow> Inr (background, int (snd (shape background)), int (fst (shape background))))
       (\<lambda>(background, out_w, out_h).
     let result = map (map px_float) background;
         (car_h, car_w) = shape car_image;
         (x, y) = (case car_position of
                     None \<Rightarrow> default_car_position out_w out_h (int car_w) (int car_h)
                   | Some p \<Rightarrow> p)
     in ebind (case (reflection, reflection_mask) of
                 (Some r, Some m) \<Rightarrow> blend_layer result r m x (y + int car_h)
               | _ \<Rightarrow> Inr result) (\<lambda>result.
        ebind (blend_shadows cv shadows [''drop'', ''ambient'', ''contact''] result) (\<lambda>result.
        ebind (blend_layer result car_image car_mask x y) (\<lambda>result.
        Inr (map (map px_uint8) result)))))"

fun shadow_pass ::
  "string \<Rightarrow> (string \<rightharpoonup> gray option) \<Rightarrow> string list \<Rightarrow> fimage \<Rightarrow> py_error + fimage" where
  \<comment> \<open>the loop of \<^verbatim>\<open>composite_shadows\<close> over the shadow types (lines 217 to 230)\<close>
  "shadow_pass blend_mode shadows [] result = Inr result"
| "shadow_pass blend_mode shadows (shadow_type # rest) result =
     (case shadows shadow_type of
        None \<Rightarrow> shadow_pass blend_mode shadows rest result
      | Some None \<Rightarrow> Inl AttributeError
      | Some (Some s) \<Rightarrow>
          let shadow = map (map (\<lambda>v. of_uint8 v / 255)) s
          in ebind (if blend_mode = ''multiply''
                    then channel_loop (\<lambda>b s. b * (1 - s)) shadow [0, 1, 2] result
                    else channel_loop (\<lambda>b s. b - s * 100) shadow [0, 1, 2] result)
               (shadow_pass blend_mode shadows rest))"

definition composite_shadows ::
  "image \<Rightarrow> (string \<rightharpoonup> gray option) \<Rightarrow> string \<Rightarrow> py_error + image" where
  "composite_shadows background shadows blend_mode =
     ebind (shadow_pass blend_mode shadows [''drop'', ''ambient'', ''contact'']
              (map (map px_float) background)) (\<lambda>result.
     Inr (map (map px_uint8) result))"

definition create_final_composite ::
  "cv2_ops \<Rightarrow> image \<Rightarrow> image \<Rightarrow> gray \<Rightarrow> (string \<rightharpoonup> gray option) \<Rightarrow> image option \<Rightarrow> gray option
     \<Rightarrow> bool \<Rightarrow> bool \<Rightarrow> py_error + image" where
  "create_final_composite cv background car_image car_mask shadows reflection reflection_mask
       auto_position auto_scale =
     (let (bg_h, bg_w) = shape background
      in ebind (if auto_scale
                then scale_car_to_fit cv car_image car_mask (int bg_w) (int bg_h) 0.75 0.50
                else Inr (car_image, car_mask)) (\<lambda>(car_image, car_mask).
         let car_position =
               (if auto_position
                then (let (car_h, car_w) = shape car_image
                      in Some (auto_position_car (int bg_w, int bg_h) (int car_w, int car_h) 0.65))
                else None)
         in composite_final cv background car_image car_mask shadows reflection reflection_mask
              car_position None))"

subsection \<open>The blending rules in the words of the specification\<close>

definition alpha_over :: "fpixel \<Rightarrow> fpixel \<Rightarrow> real \<Rightarrow> fpixel" where
  \<comment> \<open>the "over" composite \<open>out = base \<cdot> (1 - \<alpha>) + layer \<cdot> \<alpha>\<close>, per channel\<close>
  "alpha_over b l \<alpha> = px_add (px_scale b (1 - \<alpha>)) (px_scale l \<alpha>)"

definition darken :: "fpixel \<Rightarrow> uint8 \<Rightarrow> fpixel" where
  \<comment> \<open>the multiplicative rule \<open>result = result \<cdot> (1 - intensity / 255)\<close>, per channel\<close>
  "darken p s = px_scale p (1 - of_uint8 s / 255)"

definition subtract_shadow :: "fpixel \<Rightarrow> uint8 \<Rightarrow> fpixel" where
  \<comment> \<open>the rule of the other blend modes of \<^verbatim>\<open>composite_shadows\<close>:
      \<open>result = result - (intensity / 255) \<cdot> 100\<close>, per channel\<close>
  "subtract_shadow p s =
     (case p of (a, b, c) \<Rightarrow>
        (a - of_uint8 s / 255 * 100, b - of_uint8 s / 255 * 100, c - of_uint8 s / 255 * 100))"

definition inside :: "int \<Rightarrow> int \<Rightarrow> nat \<Rightarrow> nat \<Rightarrow> nat \<Rightarrow> nat \<Rightarrow> bool" where
  \<comment> \<open>the pixel in row \<open>i\<close> and column \<open>j\<close> of the canvas lies in the rectangle of a layer
      of \<open>lh\<close> rows and \<open>lw\<close> columns positioned at \<open>(x, y)\<close>\<close>
  "inside x y lh lw i j = (y \<le> int i \<and> int i < y + int lh \<and> x \<le> int j \<and> int j < x + int lw)"

definition shadow_layer_ok :: "nat \<Rightarrow> nat \<Rightarrow> gray option option \<Rightarrow> bool" where
  \<comment> \<open>an entry of the dictionary of shadows: absent, or a layer of the size of the canvas\<close>
  "shadow_layer_ok h w v = (case v of None \<Rightarrow> True | Some None \<Rightarrow> False | Some (Some s) \<Rightarrow> rect h w s)"

definition apply_shadow ::
  "(fpixel \<Rightarrow> uint8 \<Rightarrow> fpixel) \<Rightarrow> gray option option \<Rightarrow> fimage \<Rightarrow> fimage" where
  \<comment> \<open>one shadow layer blended by a rule onto the accumulated result, pixel by pixel; an
      absent layer leaves the result as it is\<close>
  "apply_shadow rule v a = (case v of Some (Some s) \<Rightarrow> map2 (map2 rule) a s | _ \<Rightarrow> a)"

definition cv2_identity :: cv2_ops where
  \<comment> \<open>an instance of the OpenCV parameters for closed examples: every operation returns its input\<close>
  "cv2_identity =
     \<lparr> cv2_resize_img = (\<lambda>a _. Inr a), cv2_resize_gray = (\<lambda>a _. Inr a),
       cv2_resize_area_img = (\<lambda>a _. Inr a), cv2_resize_area_gray = (\<lambda>a _. Inr a),
       cv2_gaussian_blur_img = (\<lambda>a _. Inr a), cv2_gaussian_blur_gray = (\<lambda>a _. Inr a),
       cv2_warp_shift_img = (\<lambda>a _. Inr a), cv2_warp_shift_gray = (\<lambda>a _. Inr a),
       cv2_bgr2hsv = Inr, cv2_hsv2bgr = Inr \<rparr>"

section \<open>Properties\<close>

subsection \<open>Truncation\<close>

lemma py_int_of_int [simp]: "py_int (real_of_int n) = n"
  by (simp add: py_int_def)

lemma py_int_mono: "a \<le> b \<Longrightarrow> py_int a \<le> py_int b"
  unfolding py_int_def
  by (smt (verit, best) ceiling_mono floor_mono floor_le_ceiling ceiling_le_zero zero_le_floor)

lemma py_int_nonneg: "0 \<le> r \<Longrightarrow> 0 \<le> py_int r"
  by (simp add: py_int_def)

lemma le_py_int: "real_of_int n \<le> r \<Longrightarrow> n \<le> py_int r"
  using py_int_mono [of "real_of_int n" r] by simp

subsection \<open>Errors, shapes and row loops\<close>

lemma ebind_Inr [simp]: "ebind (Inr v) f = f v" by (simp add: ebind_def)
lemma ebind_Inl [simp]: "ebind (Inl e) f = Inl e" by (simp add: ebind_def)

lemma shape_rect: "rect h w a \<Longrightarrow> 0 < h \<Longrightarrow> shape a = (h, w)"
  by (cases a) (auto simp: rect_def shape_def)

lemma shape_rect0: "rect 0 w a \<Longrightarrow> shape a = (0, 0)"
  by (simp add: rect_def shape_def)

lemma rect_replicate [simp]: "rect h w (replicate h (replicate w v))"
  by (simp add: rect_def list_all_length)

lemma rect_map_length: "rect h w a \<longleftrightarrow> map length a = replicate h w"
  by (auto simp: rect_def list_all_length list_eq_iff_nth_eq)

lemma fill_row_ok:
  assumes "- int (length a) \<le> y" "y < int (length a)"
  shows "\<exists>a'. fill_row a y v = Inr a' \<and> map length a' = map length a"
proof -
  define i where "i = nat (if y < 0 then y + int (length a) else y)"
  have i: "i < length a" using assms by (auto simp: i_def)
  have "map length (a[i := map (\<lambda>_. v) (a ! i)]) = map length a"
    using i by (simp add: map_update list_update_same_conv)
  then show ?thesis
    using assms by (simp add: fill_row_def Let_def i_def)
qed

lemma fill_rows_ok:
  "\<forall>y\<in>set ys. - int (length a) \<le> y \<and> y < int (length a) \<Longrightarrow>
   \<exists>a'. fill_rows f ys a = Inr a' \<and> map length a' = map length a"
proof (induction ys arbitrary: a)
  case Nil
  then show ?case by simp
next
  case (Cons y ys)
  from Cons.prems obtain a1 where a1: "fill_row a y (f y) = Inr a1" "map length a1 = map length a"
    using fill_row_ok [of a y "f y"] by auto
  from a1(2) have len: "length a1 = length a" by (metis length_map)
  with Cons.prems have "\<forall>y\<in>set ys. - int (length a1) \<le> y \<and> y < int (length a1)" by simp
  from Cons.IH [OF this] a1 show ?case by auto
qed

lemma fill_rows_append:
  "fill_rows f (xs @ ys) a = ebind (fill_rows f xs a) (fill_rows f ys)"
  by (induction xs arbitrary: a) (auto simp: ebind_def split: sum.splits)

lemma fill_row_out: "y < - int (length a) \<or> int (length a) \<le> y \<Longrightarrow> fill_row a y v = Inl IndexError"
  by (auto simp: fill_row_def Let_def)

lemma py_int_unit:
  assumes "0 \<le> h" "0 \<le> p" "p \<le> 1"
  shows "0 \<le> py_int (real_of_int h * p) \<and> py_int (real_of_int h * p) \<le> h"
proof -
  have "0 \<le> real_of_int h * p" using assms by simp
  moreover have "real_of_int h * p \<le> real_of_int h"
    using assms by (simp add: mult_left_le)
  ultimately show ?thesis
    by (simp add: py_int_def floor_le_iff)
qed

lemma presets_horizon:
  "0 \<le> horizon_position (bg_config_of preset None) \<and> horizon_position (bg_config_of preset None) \<le> 1"
  by (simp add: bg_config_of_def PRESETS_def studio_white_def studio_grey_def studio_dark_def
      showroom_def outdoor_neutral_def dealership_def)

lemma create_studio_background_ok:
  assumes "0 \<le> width" "0 \<le> height"
    and "- height \<le> py_int (real_of_int height * horizon_position (bg_config_of preset custom_config))"
    and "py_int (real_of_int height * horizon_position (bg_config_of preset custom_config)) \<le> height"
  shows "\<exists>bg. create_studio_background width height preset custom_config = Inr bg
              \<and> rect (nat height) (nat width) bg"
proof -
  define cfg where "cfg = bg_config_of preset custom_config"
  define hy where "hy = py_int (real_of_int height * horizon_position cfg)"
  define bg0 :: image where "bg0 = replicate (nat height) (replicate (nat width) (0, 0, 0))"
  have l0: "length bg0 = nat height" by (simp add: bg0_def)
  have "\<forall>y\<in>set (py_range 0 hy). - int (length bg0) \<le> y \<and> y < int (length bg0)"
    using assms by (auto simp: py_range_def l0 hy_def cfg_def)
  from fill_rows_ok [OF this] obtain bg1 where
    bg1: "fill_rows (wall_color cfg hy) (py_range 0 hy) bg0 = Inr bg1" "map length bg1 = map length bg0"
    by blast
  then have l1: "length bg1 = nat height" using l0 by (metis length_map)
  have "\<forall>y\<in>set (py_range hy height). - int (length bg1) \<le> y \<and> y < int (length bg1)"
    using assms by (auto simp: py_range_def l1 hy_def cfg_def)
  from fill_rows_ok [OF this] obtain bg2 where
    bg2: "fill_rows (floor_color_at cfg height hy) (py_range hy height) bg1 = Inr bg2"
      "map length bg2 = map length bg1"
    by blast
  have "rect (nat height) (nat width) bg2"
    using bg1(2) bg2(2) by (simp add: rect_map_length bg0_def)
  moreover have "create_studio_background width height preset custom_config = Inr bg2"
    using assms(1,2) bg1(1) bg2(1)
    by (simp add: create_studio_background_def Let_def cfg_def [symmetric] hy_def [symmetric]
        bg0_def [symmetric])
  ultimately show ?thesis by blast
qed

lemma create_studio_background_above:
  assumes "0 \<le> width" "0 \<le> height"
    and "height < py_int (real_of_int height * horizon_position (bg_config_of preset custom_config))"
  shows "create_studio_background width height preset custom_config = Inl IndexError"
proof -
  define cfg where "cfg = bg_config_of preset custom_config"
  define hy where "hy = py_int (real_of_int height * horizon_position cfg)"
  define bg0 :: image where "bg0 = replicate (nat height) (replicate (nat width) (0, 0, 0))"
  have l0: "length bg0 = nat height" by (simp add: bg0_def)
  have hy: "height < hy" using assms by (simp add: hy_def cfg_def)
  have split: "py_range 0 hy = py_range 0 height @ height # [height + 1..hy - 1]"
  proof -
    have "[0..hy - 1] = [0..height - 1] @ [height..hy - 1]"
      using assms(2) hy by (intro upto_split1) auto
    moreover have "[height..hy - 1] = height # [height + 1..hy - 1]"
      using hy by (intro upto_rec1) auto
    ultimately show ?thesis by (simp add: py_range_def)
  qed
  have "\<forall>y\<in>set (py_range 0 height). - int (length bg0) \<le> y \<and> y < int (length bg0)"
    using assms by (auto simp: py_range_def l0)
  from fill_rows_ok [OF this] obtain bg1 where
    bg1: "fill_rows (wall_color cfg hy) (py_range 0 height) bg0 = Inr bg1" "map length bg1 = map length bg0"
    by blast
  then have l1: "length bg1 = nat height" using l0 by (metis length_map)
  have "fill_row bg1 height (wall_color cfg hy height) = Inl IndexError"
    using assms(2) by (intro fill_row_out) (simp add: l1)
  then have "fill_rows (wall_color cfg hy) (py_range 0 hy) bg0 = Inl IndexError"
    using bg1(1) by (simp add: split fill_rows_append)
  then show ?thesis
    using assms(1,2)
    by (simp add: create_studio_background_def Let_def cfg_def [symmetric] hy_def [symmetric]
        bg0_def [symmetric])
qed

lemma create_studio_background_below:
  assumes "0 \<le> width" "0 \<le> height"
    and "py_int (real_of_int height * horizon_position (bg_config_of preset custom_config)) < - height"
  shows "create_studio_background width height preset custom_config = Inl IndexError"
proof -
  define cfg where "cfg = bg_config_of preset custom_config"
  define hy where "hy = py_int (real_of_int height * horizon_position cfg)"
  define bg0 :: image where "bg0 = replicate (nat height) (replicate (nat width) (0, 0, 0))"
  have hy: "hy < - height" using assms by (simp add: hy_def cfg_def)
  have e: "py_range 0 hy = []" using hy assms(2) by (simp add: py_range_def)
  have split: "py_range hy height = hy # [hy + 1..height - 1]"
    using assms(2) hy unfolding py_range_def by (simp add: upto_rec1)
  have "fill_row bg0 hy (floor_color_at cfg height hy hy) = Inl IndexError"
    using assms(2) hy by (intro fill_row_out) (simp add: bg0_def)
  then show ?thesis
    using assms(1,2)
    by (simp add: create_studio_background_def Let_def cfg_def [symmetric] hy_def [symmetric]
        bg0_def [symmetric] e split)
qed

subsection \<open>Shadows of an empty mask\<close>

lemma coords_of_zero:
  "list_all (list_all (\<lambda>v. v = 0)) msk \<Longrightarrow> coords_of msk = []"
  by (auto simp: coords_of_def filter_empty_conv list_all_length in_set_enumerate_eq)

text \<open>
  Claim C3. For every mask whose pixels are all zero, every shadow type (and every custom
  configuration), \<open>create_shadow_layer\<close> returns without error a layer of the dimensions of
  the mask whose intensities are all zero.
\<close>

theorem create_shadow_layer_empty_mask:
  assumes "rect h w msk" and "list_all (list_all (\<lambda>v. v = 0)) msk"
  shows "create_shadow_layer cv msk shadow_type custom_config = Inr (replicate h (replicate w 0))
     \<and> rect h w (replicate h (replicate w (0 :: uint8)))"
proof (cases "h = 0")
  case True
  with assms show ?thesis
    by (simp add: create_shadow_layer_def shape_rect0 coords_of_zero rect_def)
next
  case False
  with assms show ?thesis
    by (simp add: create_shadow_layer_def shape_rect coords_of_zero)
qed

theorem create_shadow_layer_empty_mask_witness:
  "create_shadow_layer cv2_identity [[0, 0, 0], [0, 0, 0]] ''contact'' None
     = Inr [[0, 0, 0], [0, 0, 0]]
   \<and> create_shadow_layer cv2_identity [[0, 0, 0], [0, 0, 0]] ''drop'' None
     = Inr [[0, 0, 0], [0, 0, 0]]"
proof -
  have r: "rect 2 3 [[0, 0, 0], [0, 0, 0 :: uint8]]"
    by (simp add: rect_def)
  have z: "list_all (list_all (\<lambda>v. v = 0)) [[0, 0, 0], [0, 0, 0 :: uint8]]"
    by simp
  have e: "replicate 2 (replicate 3 (0 :: uint8)) = [[0, 0, 0], [0, 0, 0]]"
    by (simp add: numeral_2_eq_2 numeral_3_eq_3)
  from create_shadow_layer_empty_mask [OF r z, of cv2_identity "''contact''" None]
    create_shadow_layer_empty_mask [OF r z, of cv2_identity "''drop''" None]
  show ?thesis by (simp only: e)
qed

subsection \<open>Background synthesis: dimensions and failures\<close>

lemma rect_zero_width: "rect h 0 a \<Longrightarrow> a = replicate h []"
  by (intro replicate_eqI) (auto simp: rect_def list_all_iff)

text \<open>
  Claim C4, as stated, fails. Dimensions of 0 are accepted: on a canvas 0 wide and 2 high
  the synthesis returns two empty rows, and on a canvas 3 wide and 0 high it returns the
  buffer with no row. A horizon position outside (0, 1) is not clamped: with horizon
  position 1.5 on a canvas 1 wide and 2 high the first loop runs to row 2 and the
  assignment to that row raises IndexError.
\<close>

theorem create_studio_background_no_validation:
  "create_studio_background 0 2 ''studio_white'' None = Inr [[], []]
   \<and> create_studio_background 3 0 ''studio_white'' None = Inr []
   \<and> create_studio_background 1 2 ''studio_white''
        (Some (studio_white\<lparr>horizon_position := 1.5\<rparr>)) = Inl IndexError"
  by (simp add: create_studio_background_def bg_config_of_def PRESETS_def studio_white_def
      py_int_def py_range_def fill_row_def upto.simps numeral_2_eq_2)

text \<open>
  Claim C4, amended. Background synthesis has no error of its own for dimensions and never
  clamps the horizon position. A negative width or height fails with the ValueError of
  \<^verbatim>\<open>np.zeros\<close>. With width and height not negative, the horizon row is
  \<open>int(height \<cdot> horizon_position)\<close> as given, and the call is rejected with IndexError
  when that row is greater than the height or less than minus the height. Dimensions of 0
  are accepted: a height of 0 (with any width that is not negative, and any configuration)
  yields the buffer with no row, and a width of 0 (with any height that is not negative)
  yields \<open>height\<close> empty rows for every preset and for every custom configuration whose
  horizon row lies between minus the height and the height.
\<close>

theorem create_studio_background_failures:
  "(width < 0 \<or> height < 0 \<longrightarrow>
      create_studio_background width height preset custom_config = Inl ValueError)
   \<and> (0 \<le> width \<and> 0 \<le> height
        \<and> height < py_int (real_of_int height * horizon_position (bg_config_of preset custom_config)) \<longrightarrow>
      create_studio_background width height preset custom_config = Inl IndexError)
   \<and> (0 \<le> width \<and> 0 \<le> height
        \<and> py_int (real_of_int height * horizon_position (bg_config_of preset custom_config)) < - height \<longrightarrow>
      create_studio_background width height preset custom_config = Inl IndexError)
   \<and> (0 \<le> width \<longrightarrow> create_studio_background width 0 preset custom_config = Inr [])
   \<and> (0 \<le> height
        \<and> (custom_config = None
            \<or> (- height \<le> py_int (real_of_int height * horizon_position (bg_config_of preset custom_config))
               \<and> py_int (real_of_int height * horizon_position (bg_config_of preset custom_config)) \<le> height)) \<longrightarrow>
      create_studio_background 0 height preset custom_config = Inr (replicate (nat height) []))"
proof -
  have v: "create_studio_background width height preset custom_config = Inl ValueError"
    if "width < 0 \<or> height < 0"
    using that by (auto simp: create_studio_background_def Let_def)
  have h0: "create_studio_background width 0 preset custom_config = Inr []" if "0 \<le> width"
    using that by (simp add: create_studio_background_def Let_def py_range_def py_int_def)
  have w0: "create_studio_background 0 height preset custom_config = Inr (replicate (nat height) [])"
    if h: "0 \<le> height"
      and c: "custom_config = None
            \<or> (- height \<le> py_int (real_of_int height * horizon_position (bg_config_of preset custom_config))
               \<and> py_int (real_of_int height * horizon_position (bg_config_of preset custom_config)) \<le> height)"
  proof -
    have hz: "- height \<le> py_int (real_of_int height * horizon_position (bg_config_of preset custom_config))
        \<and> py_int (real_of_int height * horizon_position (bg_config_of preset custom_config)) \<le> height"
    proof (cases "custom_config = None")
      case True
      with h presets_horizon [of preset]
        py_int_unit [of height "horizon_position (bg_config_of preset None)"]
      show ?thesis by auto
    next
      case False
      with c show ?thesis by simp
    qed
    with h create_studio_background_ok [of 0 height preset custom_config]
    obtain bg where bg: "create_studio_background 0 height preset custom_config = Inr bg"
      "rect (nat height) 0 bg"
      by auto
    from bg(2) have "bg = replicate (nat height) []" by (rule rect_zero_width)
    with bg(1) show ?thesis by simp
  qed
  from v h0 w0 show ?thesis
    using create_studio_background_above [of width height preset custom_config]
      create_studio_background_below [of width height preset custom_config]
    by blast
qed

theorem create_studio_background_failures_witness:
  "create_studio_background (- 1) 4 ''showroom'' None = Inl ValueError
   \<and> create_studio_background 3 4 ''showroom''
       (Some (showroom\<lparr>horizon_position := 2\<rparr>)) = Inl IndexError
   \<and> create_studio_background 3 4 ''showroom''
       (Some (showroom\<lparr>horizon_position := - 2\<rparr>)) = Inl IndexError
   \<and> create_studio_background 5 0 ''showroom'' (Some (showroom\<lparr>horizon_position := 7\<rparr>)) = Inr []
   \<and> create_studio_background 0 3 ''showroom'' None = Inr [[], [], []]"
proof -
  have a: "(- 1 :: int) < 0 \<or> (4 :: int) < 0" by simp
  have b: "(0 :: int) \<le> 3 \<and> (0 :: int) \<le> 4
      \<and> 4 < py_int (real_of_int 4 * horizon_position
               (bg_config_of ''showroom'' (Some (showroom\<lparr>horizon_position := 2\<rparr>))))"
    by (simp add: bg_config_of_def py_int_def)
  have c: "(0 :: int) \<le> 3 \<and> (0 :: int) \<le> 4
      \<and> py_int (real_of_int 4 * horizon_position
               (bg_config_of ''showroom'' (Some (showroom\<lparr>horizon_position := - 2\<rparr>)))) < - 4"
    by (simp add: bg_config_of_def py_int_def)
  have d: "(0 :: int) \<le> 5" by simp
  have e: "(0 :: int) \<le> 3 \<and> ((None :: bg_config option) = None
         \<or> (- 3 \<le> py_int (real_of_int 3 * horizon_position (bg_config_of ''showroom'' None))
            \<and> py_int (real_of_int 3 * horizon_position (bg_config_of ''showroom'' None)) \<le> 3))"
    by simp
  have r: "replicate (nat 3) ([] :: pixel list) = [[], [], []]"
    by (simp add: numeral_3_eq_3)
  have w1: "create_studio_background (- 1) 4 ''showroom'' None = Inl ValueError"
    using a create_studio_background_failures [of "- 1" 4 "''showroom''" None, THEN conjunct1]
    by (rule rev_mp)
  have w2: "create_studio_background 3 4 ''showroom''
       (Some (showroom\<lparr>horizon_position := 2\<rparr>)) = Inl IndexError"
    using b create_studio_background_failures [of 3 4 "''showroom''"
        "Some (showroom\<lparr>horizon_position := 2\<rparr>)", THEN conjunct2, THEN conjunct1]
    by (rule rev_mp)
  have w3: "create_studio_background 3 4 ''showroom''
       (Some (showroom\<lparr>horizon_position := - 2\<rparr>)) = Inl IndexError"
    using c create_studio_background_failures [of 3 4 "''showroom''"
        "Some (showroom\<lparr>horizon_position := - 2\<rparr>)", THEN conjunct2, THEN conjunct2,
        THEN conjunct1]
    by (rule rev_mp)
  have w4: "create_studio_background 5 0 ''showroom''
       (Some (showroom\<lparr>horizon_position := 7\<rparr>)) = Inr []"
    using d create_studio_background_failures [of 5 3 "''showroom''"
        "Some (showroom\<lparr>horizon_position := 7\<rparr>)", THEN conjunct2, THEN conjunct2,
        THEN conjunct2, THEN conjunct1]
    by (rule rev_mp)
  have w5: "create_studio_background 0 3 ''showroom'' None = Inr (replicate (nat 3) [])"
    using e create_studio_background_failures [of 0 3 "''showroom''" None, THEN conjunct2,
        THEN conjunct2, THEN conjunct2, THEN conjunct2]
    by (rule rev_mp)
  from w1 w2 w3 w4 w5 show ?thesis
    unfolding r by (intro conjI)
qed

text \<open>
  Claim C5, as stated, fails for custom configurations: on a canvas of 1 by 1 with the
  custom horizon position 2.5 no buffer is returned, the synthesis raises IndexError.
\<close>

theorem create_studio_background_custom_horizon:
  "create_studio_background 1 1 ''studio_white''
     (Some (studio_white\<lparr>horizon_position := 2.5\<rparr>)) = Inl IndexError"
  by (simp add: create_studio_background_def bg_config_of_def PRESETS_def studio_white_def
      py_int_def py_range_def fill_row_def upto.simps)

text \<open>
  Claim C5, amended. For every width > 0 and height > 0, and every preset name (known or
  not) or every custom configuration whose horizon row \<open>int(height \<cdot> horizon_position)\<close>
  lies between minus the height and the height, background synthesis returns a buffer of
  exactly \<open>height\<close> rows of \<open>width\<close> pixels, every channel in 0..255.
\<close>

theorem create_studio_background_size:
  assumes "0 < width" "0 < height"
    and "custom_config = None
       \<or> (- height \<le> py_int (real_of_int height * horizon_position (bg_config_of preset custom_config))
          \<and> py_int (real_of_int height * horizon_position (bg_config_of preset custom_config)) \<le> height)"
  shows "\<exists>bg. create_studio_background width height preset custom_config = Inr bg
            \<and> rect (nat height) (nat width) bg
            \<and> list_all (list_all (\<lambda>(r, g, b). unat r \<le> 255 \<and> unat g \<le> 255 \<and> unat b \<le> 255)) bg"
proof -
  have hz: "- height \<le> py_int (real_of_int height * horizon_position (bg_config_of preset custom_config))
      \<and> py_int (real_of_int height * horizon_position (bg_config_of preset custom_config)) \<le> height"
  proof (cases "custom_config = None")
    case True
    with assms(2) presets_horizon [of preset]
      py_int_unit [of height "horizon_position (bg_config_of preset None)"]
    show ?thesis by auto
  next
    case False
    with assms(3) show ?thesis by simp
  qed
  with assms(1,2) create_studio_background_ok [of width height preset custom_config]
  obtain bg where bg: "create_studio_background width height preset custom_config = Inr bg"
    "rect (nat height) (nat width) bg"
    by auto
  have byte: "unat (v :: uint8) \<le> 255" for v
    using unsigned_less [of v, where ?'a = nat] by simp
  have "list_all (list_all (\<lambda>(r, g, b). unat r \<le> 255 \<and> unat g \<le> 255 \<and> unat b \<le> 255)) bg"
    by (auto simp: list_all_iff byte)
  with bg show ?thesis by blast
qed

theorem create_studio_background_size_witness:
  "\<exists>bg. create_studio_background 4 3 ''dealership'' None = Inr bg \<and> rect 3 4 bg"
proof -
  have "(0 :: int) < 4" "(0 :: int) < 3" by simp_all
  from create_studio_background_size [OF this, of None "''dealership''"]
  show ?thesis by auto
qed

subsection \<open>Unknown names fall back\<close>



subsection \<open>Arrays: slices, elementwise operations, assignment to a region\<close>

lemma rect_nth: "rect h w a \<Longrightarrow> i < h \<Longrightarrow> length (a ! i) = w"
  by (simp add: rect_def list_all_length)

lemma rect_length: "rect h w a \<Longrightarrow> length a = h"
  by (simp add: rect_def)

lemma rectI: "length a = h \<Longrightarrow> (\<And>i. i < h \<Longrightarrow> length (a ! i) = w) \<Longrightarrow> rect h w a"
  by (simp add: rect_def list_all_length)

lemma array2_eqI:
  assumes "rect h w a" "rect h w b" "\<And>i j. i < h \<Longrightarrow> j < w \<Longrightarrow> a ! i ! j = b ! i ! j"
  shows "a = b"
proof (rule nth_equalityI)
  show "length a = length b" using assms by (simp add: rect_def)
next
  fix i assume "i < length a"
  then have i: "i < h" using assms(1) by (simp add: rect_def)
  show "a ! i = b ! i"
    using assms i by (intro nth_equalityI) (simp_all add: rect_nth)
qed

lemma shape_rect': "rect h w a \<Longrightarrow> shape a = (if h = 0 then (0, 0) else (h, w))"
  by (cases a) (auto simp: rect_def shape_def)

lemma expand_rect: "rect h w a \<Longrightarrow> expand (h, w) a = a"
  by (auto simp: expand_def rect_def list_all_iff intro: map_idI)

lemma expand_rect0: "expand (0, w) [] = []"
  by (simp add: expand_def)

lemma rect_map2:
  "rect h w a \<Longrightarrow> rect h w b \<Longrightarrow> rect h w (map2 (map2 f) a b)"
  by (auto simp: rect_def list_all_length)

lemma nth_map2_2:
  "rect h w a \<Longrightarrow> rect h w b \<Longrightarrow> i < h \<Longrightarrow> j < w \<Longrightarrow>
   map2 (map2 f) a b ! i ! j = f (a ! i ! j) (b ! i ! j)"
  by (simp add: rect_def list_all_length)

lemma rect_map: "rect h w a \<Longrightarrow> rect h w (map (map f) a)"
  by (auto simp: rect_def list_all_length)

lemma nth_map_2: "rect h w a \<Longrightarrow> i < h \<Longrightarrow> j < w \<Longrightarrow> map (map f) a ! i ! j = f (a ! i ! j)"
  by (simp add: rect_def list_all_length)

lemma np_map2_rect:
  assumes "rect h w a" "rect h w b"
  shows "np_map2 f a b = Inr (map2 (map2 f) a b)"
proof (cases "h = 0")
  case True
  with assms show ?thesis
    by (simp add: np_map2_def rect_def shape_def broadcast_shapes_def bdim_def expand_def)
next
  case False
  with assms have "shape a = (h, w)" "shape b = (h, w)" by (simp_all add: shape_rect')
  moreover have "expand (bdim h h, bdim w w) a = a" "expand (bdim h h, bdim w w) b = b"
    using assms by (simp_all add: bdim_def expand_rect)
  ultimately show ?thesis
    by (simp add: np_map2_def broadcast_shapes_def)
qed

lemma assign_all_rect:
  assumes "rect h w a" "rect h w v"
  shows "assign_all f a v = Inr (map2 (map2 f) a v)"
proof (cases "h = 0")
  case True
  with assms show ?thesis
    by (simp add: assign_all_def rect_def shape_def expand_def)
next
  case False
  with assms have "shape a = (h, w)" "shape v = (h, w)" by (simp_all add: shape_rect')
  then show ?thesis using assms by (simp add: assign_all_def expand_rect)
qed

lemma slice_norm_id: "0 \<le> i \<Longrightarrow> i \<le> int n \<Longrightarrow> slice_norm i n = nat i"
  by (simp add: slice_norm_def)

lemma py_slice_in:
  "0 \<le> lo \<Longrightarrow> lo \<le> hi \<Longrightarrow> hi \<le> int (length xs) \<Longrightarrow>
   py_slice lo hi xs = take (nat (hi - lo)) (drop (nat lo) xs)"
  by (simp add: py_slice_def Let_def slice_norm_id nat_diff_distrib)

lemma length_py_slice_in:
  "0 \<le> lo \<Longrightarrow> lo \<le> hi \<Longrightarrow> hi \<le> int (length xs) \<Longrightarrow> length (py_slice lo hi xs) = nat (hi - lo)"
  by (simp add: py_slice_in)

lemma nth_py_slice_in:
  "0 \<le> lo \<Longrightarrow> lo \<le> hi \<Longrightarrow> hi \<le> int (length xs) \<Longrightarrow> i < nat (hi - lo) \<Longrightarrow>
   py_slice lo hi xs ! i = xs ! (nat lo + i)"
  by (simp add: py_slice_in)

lemma rect_slice2:
  assumes "rect h w a" "0 \<le> y1" "y1 \<le> y2" "y2 \<le> int h" "0 \<le> x1" "x1 \<le> x2" "x2 \<le> int w"
  shows "rect (nat (y2 - y1)) (nat (x2 - x1)) (slice2 y1 y2 x1 x2 a)"
proof (rule rectI)
  show "length (slice2 y1 y2 x1 x2 a) = nat (y2 - y1)"
    using assms by (simp add: slice2_def length_py_slice_in rect_length)
next
  fix i assume i: "i < nat (y2 - y1)"
  then have "nat y1 + i < h" using assms by linarith
  then show "length (slice2 y1 y2 x1 x2 a ! i) = nat (x2 - x1)"
    using assms i
    by (simp add: slice2_def length_py_slice_in nth_py_slice_in rect_length rect_nth)
qed

lemma nth_slice2:
  assumes "rect h w a" "0 \<le> y1" "y1 \<le> y2" "y2 \<le> int h" "0 \<le> x1" "x1 \<le> x2" "x2 \<le> int w"
    and "i < nat (y2 - y1)" "j < nat (x2 - x1)"
  shows "slice2 y1 y2 x1 x2 a ! i ! j = a ! (nat y1 + i) ! (nat x1 + j)"
proof -
  have "nat y1 + i < h" using assms by linarith
  then show ?thesis
    using assms
    by (simp add: slice2_def length_py_slice_in nth_py_slice_in rect_length rect_nth)
qed


lemma assign_slice2_in:
  assumes a: "rect h w a"
    and y: "0 \<le> y1" "y1 < y2" "y2 \<le> int h"
    and x: "0 \<le> x1" "x1 < x2" "x2 \<le> int w"
    and v: "rect (nat (y2 - y1)) (nat (x2 - x1)) v"
  shows "\<exists>a'. assign_slice2 a y1 y2 x1 x2 v = Inr a' \<and> rect h w a'
           \<and> (\<forall>i<h. \<forall>j<w. a' ! i ! j =
                 (if y1 \<le> int i \<and> int i < y2 \<and> x1 \<le> int j \<and> int j < x2
                  then v ! (i - nat y1) ! (j - nat x1) else a ! i ! j))"
proof -
  define r0 r1 c0 c1 where "r0 = nat y1" and "r1 = nat y2" and "c0 = nat x1" and "c1 = nat x2"
  have r: "r0 < r1" "r1 \<le> h" and c: "c0 < c1" "c1 \<le> w"
    using y x by (auto simp: r0_def r1_def c0_def c1_def)
  have d: "nat (y2 - y1) = r1 - r0" "nat (x2 - x1) = c1 - c0"
    using y x by (auto simp: r0_def r1_def c0_def c1_def nat_diff_distrib)
  have la: "length a = h" using a by (simp add: rect_def)
  have lv: "length v = r1 - r0" using v d by (simp add: rect_def)
  define mid where "mid = map2 (\<lambda>row vr. take c0 row @ vr @ drop c1 row) (take (r1 - r0) (drop r0 a)) v"
  define a' where "a' = take r0 a @ mid @ drop r1 a"
  have lm: "length mid = r1 - r0" using r la lv by (simp add: mid_def)
  have sa: "shape a = (h, w)" using a r by (simp add: shape_rect')
  have sv: "shape v = (r1 - r0, c1 - c0)" using v d r c by (simp add: shape_rect')
  have ev: "expand (r1 - r0, c1 - c0) v = v" using v d by (simp add: expand_rect)
  have n0: "slice_norm y1 h = r0" "slice_norm y2 h = r1" "slice_norm x1 w = c0" "slice_norm x2 w = c1"
    using y x by (simp_all add: slice_norm_id r0_def r1_def c0_def c1_def)
  have res: "assign_slice2 a y1 y2 x1 x2 v = Inr a'"
    using r c by (simp add: assign_slice2_def sa sv n0 Let_def ev max_def a'_def mid_def)
  have len: "length a' = h" using r la lm by (simp add: a'_def)
  have row: "a' ! i = (if r0 \<le> i \<and> i < r1 then take c0 (a ! i) @ v ! (i - r0) @ drop c1 (a ! i) else a ! i)"
    if "i < h" for i
  proof -
    consider "i < r0" | "r0 \<le> i" "i < r1" | "r1 \<le> i" by linarith
    then show ?thesis
    proof cases
      case 1
      then show ?thesis using r la by (simp add: a'_def nth_append)
    next
      case 2
      then have "i - r0 < r1 - r0" by linarith
      with 2 have "a' ! i = mid ! (i - r0)"
        using r la lm by (simp add: a'_def nth_append)
      also have "\<dots> = take c0 (a ! i) @ v ! (i - r0) @ drop c1 (a ! i)"
        using 2 r la lv by (simp add: mid_def)
      finally show ?thesis using 2 by simp
    next
      case 3
      then have "\<not> i < r0" "\<not> i - r0 < r1 - r0" "i - r0 - (r1 - r0) = i - r1"
        using r by linarith+
      then have "a' ! i = drop r1 a ! (i - r1)"
        using r la lm by (simp add: a'_def nth_append)
      then show ?thesis using 3 that la r by simp
    qed
  qed
  have wlen: "length (a ! i) = w" if "i < h" for i using a that by (rule rect_nth)
  have vlen: "length (v ! k) = c1 - c0" if "k < r1 - r0" for k
    using v d that by (simp add: rect_nth)
  have "rect h w a'"
  proof (rule rectI [OF len])
    fix i assume i: "i < h"
    show "length (a' ! i) = w"
      using i c wlen [OF i] vlen [of "i - r0"] by (auto simp: row [OF i])
  qed
  moreover have "a' ! i ! j =
      (if y1 \<le> int i \<and> int i < y2 \<and> x1 \<le> int j \<and> int j < x2
       then v ! (i - nat y1) ! (j - nat x1) else a ! i ! j)" if i: "i < h" and j: "j < w" for i j
  proof (cases "r0 \<le> i \<and> i < r1")
    case False
    then have n: "\<not> (y1 \<le> int i \<and> int i < y2)" using y by (auto simp: r0_def r1_def)
    have "a' ! i = a ! i" by (simp only: row [OF i] False if_False)
    with n show ?thesis by auto
  next
    case True
    then have yi: "y1 \<le> int i \<and> int i < y2" using y by (auto simp: r0_def r1_def)
    have k: "i - r0 < r1 - r0" using True by linarith
    have e: "a' ! i = take c0 (a ! i) @ v ! (i - r0) @ drop c1 (a ! i)"
      using True by (simp add: row [OF i])
    have lt: "length (take c0 (a ! i)) = c0" using c wlen [OF i] by simp
    consider "j < c0" | "c0 \<le> j" "j < c1" | "c1 \<le> j" by linarith
    then show ?thesis
    proof cases
      case 1
      then have n: "\<not> x1 \<le> int j" using x by (auto simp: c0_def)
      have "a' ! i ! j = a ! i ! j"
        using 1 lt by (simp add: e nth_append)
      with n show ?thesis by auto
    next
      case 2
      then have xj: "x1 \<le> int j \<and> int j < x2" using x by (auto simp: c0_def c1_def)
      have "\<not> j < c0" "j - c0 < c1 - c0" using 2 by linarith+
      then have "a' ! i ! j = v ! (i - r0) ! (j - c0)"
        using lt vlen [OF k] by (simp add: e nth_append)
      with xj yi show ?thesis by (simp add: r0_def c0_def)
    next
      case 3
      then have n: "\<not> int j < x2" using x by (auto simp: c1_def)
      have "\<not> j < c0" "\<not> j - c0 < c1 - c0" "c1 + (j - c0 - (c1 - c0)) = j" using 3 c by linarith+
      then have "a' ! i ! j = a ! i ! j"
        using lt vlen [OF k] c wlen [OF i] by (simp add: e nth_append)
      with n show ?thesis by auto
    qed
  qed
  ultimately show ?thesis using res by blast
qed


lemma py_slice_map: "py_slice lo hi (map f xs) = map f (py_slice lo hi xs)"
  by (simp add: py_slice_def Let_def take_map drop_map)

lemma slice2_map: "slice2 y1 y2 x1 x2 (map (map f) a) = map (map f) (slice2 y1 y2 x1 x2 a)"
  by (simp add: slice2_def py_slice_map)

lemma py_int_clip_nat: "n \<le> 255 \<Longrightarrow> py_int (clip255 (real n)) = int n"
  by (simp add: clip255_def py_int_def)

lemma to_uint8_of_uint8 [simp]: "to_uint8 (clip255 (of_uint8 v)) = v"
proof -
  have "unat v \<le> 255" using unsigned_less [of v, where ?'a = nat] by simp
  then have "py_int (clip255 (real (unat v))) = int (unat v)" by (rule py_int_clip_nat)
  then show ?thesis by (simp only: to_uint8_def of_uint8_def) simp
qed

lemma px_uint8_float [simp]: "px_uint8 (px_float p) = p"
  by (cases p) (simp add: px_uint8_def px_float_def)

lemma over_region:
  fixes base :: fimage and L :: fimage and M :: fgray
  assumes b: "rect bh bw base" and l: "rect lh lw L" and m: "rect lh lw M"
    and y: "0 \<le> y1" "y1 < y2" "y2 \<le> int bh" and x: "0 \<le> x1" "x1 < x2" "x2 \<le> int bw"
    and ly: "0 \<le> ly1" "ly1 + (y2 - y1) \<le> int lh" and lx: "0 \<le> lx1" "lx1 + (x2 - x1) \<le> int lw"
  shows "\<exists>a'. ebind (np_map2 (\<lambda>b m. px_scale b (1 - m)) (slice2 y1 y2 x1 x2 base)
                        (slice2 ly1 (ly1 + (y2 - y1)) lx1 (lx1 + (x2 - x1)) M)) (\<lambda>t1.
               ebind (np_map2 px_scale (slice2 ly1 (ly1 + (y2 - y1)) lx1 (lx1 + (x2 - x1)) L)
                        (slice2 ly1 (ly1 + (y2 - y1)) lx1 (lx1 + (x2 - x1)) M)) (\<lambda>t2.
               ebind (np_map2 px_add t1 t2) (\<lambda>v.
               assign_slice2 base y1 y2 x1 x2 v))) = Inr a'
           \<and> rect bh bw a'
           \<and> (\<forall>i<bh. \<forall>j<bw. a' ! i ! j =
                 (if y1 \<le> int i \<and> int i < y2 \<and> x1 \<le> int j \<and> int j < x2
                  then alpha_over (base ! i ! j)
                         (L ! (nat ly1 + (i - nat y1)) ! (nat lx1 + (j - nat x1)))
                         (M ! (nat ly1 + (i - nat y1)) ! (nat lx1 + (j - nat x1)))
                  else base ! i ! j))"
proof -
  define rh rw where "rh = nat (y2 - y1)" and "rw = nat (x2 - x1)"
  define B where "B = slice2 y1 y2 x1 x2 base"
  define Ls where "Ls = slice2 ly1 (ly1 + (y2 - y1)) lx1 (lx1 + (x2 - x1)) L"
  define Ms where "Ms = slice2 ly1 (ly1 + (y2 - y1)) lx1 (lx1 + (x2 - x1)) M"
  have rB: "rect rh rw B"
    unfolding B_def rh_def rw_def using b y x by (intro rect_slice2) auto
  have rL: "rect rh rw Ls"
    using rect_slice2 [OF l, of ly1 "ly1 + (y2 - y1)" lx1 "lx1 + (x2 - x1)"] y x ly lx
    by (simp add: Ls_def rh_def rw_def)
  have rM: "rect rh rw Ms"
    using rect_slice2 [OF m, of ly1 "ly1 + (y2 - y1)" lx1 "lx1 + (x2 - x1)"] y x ly lx
    by (simp add: Ms_def rh_def rw_def)
  define t1 where "t1 = map2 (map2 (\<lambda>b m. px_scale b (1 - m))) B Ms"
  define t2 where "t2 = map2 (map2 px_scale) Ls Ms"
  define v where "v = map2 (map2 px_add) t1 t2"
  have r1: "rect rh rw t1" unfolding t1_def using rB rM by (rule rect_map2)
  have r2: "rect rh rw t2" unfolding t2_def using rL rM by (rule rect_map2)
  have rv: "rect rh rw v" unfolding v_def using r1 r2 by (rule rect_map2)
  have e1: "np_map2 (\<lambda>b m. px_scale b (1 - m)) B Ms = Inr t1"
    unfolding t1_def using rB rM by (rule np_map2_rect)
  have e2: "np_map2 px_scale Ls Ms = Inr t2"
    unfolding t2_def using rL rM by (rule np_map2_rect)
  have e3: "np_map2 px_add t1 t2 = Inr v"
    unfolding v_def using r1 r2 by (rule np_map2_rect)
  have vij: "v ! i ! j = alpha_over (B ! i ! j) (Ls ! i ! j) (Ms ! i ! j)" if "i < rh" "j < rw" for i j
    using that rB rL rM r1 r2
    by (simp add: v_def t1_def t2_def nth_map2_2 alpha_over_def)
  have Bij: "B ! i ! j = base ! (nat y1 + i) ! (nat x1 + j)" if "i < rh" "j < rw" for i j
    unfolding B_def using b y x that by (intro nth_slice2) (auto simp: rh_def rw_def)
  have Lij: "Ls ! i ! j = L ! (nat ly1 + i) ! (nat lx1 + j)" if "i < rh" "j < rw" for i j
    unfolding Ls_def using l y x ly lx that by (intro nth_slice2) (auto simp: rh_def rw_def)
  have Mij: "Ms ! i ! j = M ! (nat ly1 + i) ! (nat lx1 + j)" if "i < rh" "j < rw" for i j
    unfolding Ms_def using m y x ly lx that by (intro nth_slice2) (auto simp: rh_def rw_def)
  from assign_slice2_in [OF b y x rv [unfolded rh_def rw_def]]
  obtain a' where a': "assign_slice2 base y1 y2 x1 x2 v = Inr a'" "rect bh bw a'"
    and px: "\<And>i j. i < bh \<Longrightarrow> j < bw \<Longrightarrow> a' ! i ! j =
         (if y1 \<le> int i \<and> int i < y2 \<and> x1 \<le> int j \<and> int j < x2
          then v ! (i - nat y1) ! (j - nat x1) else base ! i ! j)"
    by blast
  have "a' ! i ! j =
         (if y1 \<le> int i \<and> int i < y2 \<and> x1 \<le> int j \<and> int j < x2
          then alpha_over (base ! i ! j)
                 (L ! (nat ly1 + (i - nat y1)) ! (nat lx1 + (j - nat x1)))
                 (M ! (nat ly1 + (i - nat y1)) ! (nat lx1 + (j - nat x1)))
          else base ! i ! j)" if i: "i < bh" and j: "j < bw" for i j
  proof (cases "y1 \<le> int i \<and> int i < y2 \<and> x1 \<le> int j \<and> int j < x2")
    case False
    then show ?thesis using px [OF i j] by auto
  next
    case True
    then have k: "i - nat y1 < rh" "j - nat x1 < rw" "nat y1 + (i - nat y1) = i" "nat x1 + (j - nat x1) = j"
      using y x by (auto simp: rh_def rw_def)
    have "a' ! i ! j = v ! (i - nat y1) ! (j - nat x1)" using True px [OF i j] by auto
    then show ?thesis
      using True k by (simp add: vij Bij Lij Mij)
  qed
  then show ?thesis
    using a' e1 e2 e3 by (simp add: B_def [symmetric] Ls_def [symmetric] Ms_def [symmetric])
qed


lemma blend_layer_unfold:
  assumes "shape base = (bh, bw)" "shape layer = (lh, lw)"
  shows "blend_layer base layer msk x y =
     (if min (int bw) (x + int lw) \<le> max 0 x \<or> min (int bh) (y + int lh) \<le> max 0 y then Inr base
      else ebind (np_map2 (\<lambda>b m. px_scale b (1 - m))
                    (slice2 (max 0 y) (min (int bh) (y + int lh)) (max 0 x) (min (int bw) (x + int lw)) base)
                    (slice2 (max 0 (- y)) (max 0 (- y) + (min (int bh) (y + int lh) - max 0 y))
                       (max 0 (- x)) (max 0 (- x) + (min (int bw) (x + int lw) - max 0 x))
                       (map (map (\<lambda>m. of_uint8 m / 255)) msk))) (\<lambda>t1.
           ebind (np_map2 px_scale
                    (slice2 (max 0 (- y)) (max 0 (- y) + (min (int bh) (y + int lh) - max 0 y))
                       (max 0 (- x)) (max 0 (- x) + (min (int bw) (x + int lw) - max 0 x))
                       (map (map (\<lambda>p. px_float (bgr2rgb p))) layer))
                    (slice2 (max 0 (- y)) (max 0 (- y) + (min (int bh) (y + int lh) - max 0 y))
                       (max 0 (- x)) (max 0 (- x) + (min (int bw) (x + int lw) - max 0 x))
                       (map (map (\<lambda>m. of_uint8 m / 255)) msk))) (\<lambda>t2.
           ebind (np_map2 px_add t1 t2) (\<lambda>v.
           assign_slice2 base (max 0 y) (min (int bh) (y + int lh)) (max 0 x) (min (int bw) (x + int lw)) v))))"
  by (simp add: blend_layer_def layer_window_def assms Let_def slice2_map)

lemma blend_layer_pixels:
  assumes b: "rect bh bw base" and l: "rect lh lw layer" and m: "rect lh lw msk"
  shows "\<exists>base'. blend_layer base layer msk x y = Inr base' \<and> rect bh bw base'
           \<and> (\<forall>i<bh. \<forall>j<bw. base' ! i ! j =
                 (if inside x y lh lw i j
                  then alpha_over (base ! i ! j)
                         (px_float (bgr2rgb (layer ! nat (int i - y) ! nat (int j - x))))
                         (of_uint8 (msk ! nat (int i - y) ! nat (int j - x)) / 255)
                  else base ! i ! j))"
proof -
  consider "bh = 0" | "bh > 0" "lh = 0" | "bh > 0" "lh > 0" by linarith
  then show ?thesis
  proof cases
    case 1
    with b have s0: "shape base = (0, 0)" by (simp add: shape_rect')
    obtain a c where s1: "shape layer = (a, c)" by (cases "shape layer")
    have "min 0 (x + int c) \<le> max 0 x" by linarith
    then have "blend_layer base layer msk x y = Inr base"
      by (simp add: blend_layer_unfold [OF s0 s1])
    with 1 b show ?thesis by simp
  next
    case 2
    with b l have s0: "shape base = (bh, bw)" and s1: "shape layer = (0, 0)"
      by (simp_all add: shape_rect')
    have "min (int bh) y \<le> max 0 y" by linarith
    then have "blend_layer base layer msk x y = Inr base"
      by (simp add: blend_layer_unfold [OF s0 s1])
    with 2 b show ?thesis by (auto simp: inside_def)
  next
    case 3
    with b l have sh: "shape base = (bh, bw)" "shape layer = (lh, lw)" by (simp_all add: shape_rect')
    define x1 y1 x2 y2 where "x1 = max 0 x" and "y1 = max 0 y"
      and "x2 = min (int bw) (x + int lw)" and "y2 = min (int bh) (y + int lh)"
    define lx1 ly1 where "lx1 = max 0 (- x)" and "ly1 = max 0 (- y)"
    note d = x1_def y1_def x2_def y2_def lx1_def ly1_def
    show ?thesis
    proof (cases "x2 \<le> x1 \<or> y2 \<le> y1")
      case True
      then have "blend_layer base layer msk x y = Inr base"
        by (simp add: blend_layer_unfold [OF sh] d)
      moreover have "\<not> inside x y lh lw i j" if "i < bh" "j < bw" for i j
        using True that by (auto simp: inside_def d)
      ultimately show ?thesis using b by simp
    next
      case False
      then have w: "0 \<le> y1" "y1 < y2" "y2 \<le> int bh" "0 \<le> x1" "x1 < x2" "x2 \<le> int bw"
        "0 \<le> ly1" "ly1 + (y2 - y1) \<le> int lh" "0 \<le> lx1" "lx1 + (x2 - x1) \<le> int lw"
        by (auto simp: d)
      define L where "L = map (map (\<lambda>p. px_float (bgr2rgb p))) layer"
      define M where "M = map (map (\<lambda>m. of_uint8 m / 255)) msk"
      have rL: "rect lh lw L" unfolding L_def using l by (rule rect_map)
      have rM: "rect lh lw M" unfolding M_def using m by (rule rect_map)
      from over_region [OF b rL rM w]
      obtain a' where a': "ebind (np_map2 (\<lambda>b m. px_scale b (1 - m)) (slice2 y1 y2 x1 x2 base)
                        (slice2 ly1 (ly1 + (y2 - y1)) lx1 (lx1 + (x2 - x1)) M)) (\<lambda>t1.
               ebind (np_map2 px_scale (slice2 ly1 (ly1 + (y2 - y1)) lx1 (lx1 + (x2 - x1)) L)
                        (slice2 ly1 (ly1 + (y2 - y1)) lx1 (lx1 + (x2 - x1)) M)) (\<lambda>t2.
               ebind (np_map2 px_add t1 t2) (\<lambda>v.
               assign_slice2 base y1 y2 x1 x2 v))) = Inr a'" "rect bh bw a'"
        and px: "\<And>i j. i < bh \<Longrightarrow> j < bw \<Longrightarrow> a' ! i ! j =
                 (if y1 \<le> int i \<and> int i < y2 \<and> x1 \<le> int j \<and> int j < x2
                  then alpha_over (base ! i ! j)
                         (L ! (nat ly1 + (i - nat y1)) ! (nat lx1 + (j - nat x1)))
                         (M ! (nat ly1 + (i - nat y1)) ! (nat lx1 + (j - nat x1)))
                  else base ! i ! j)"
        by blast
      have res: "blend_layer base layer msk x y = Inr a'"
        using False a'(1) by (simp add: blend_layer_unfold [OF sh] d L_def M_def)
      have "a' ! i ! j =
                 (if inside x y lh lw i j
                  then alpha_over (base ! i ! j)
                         (px_float (bgr2rgb (layer ! nat (int i - y) ! nat (int j - x))))
                         (of_uint8 (msk ! nat (int i - y) ! nat (int j - x)) / 255)
                  else base ! i ! j)" if i: "i < bh" and j: "j < bw" for i j
      proof (cases "inside x y lh lw i j")
        case True
        then have c: "y1 \<le> int i \<and> int i < y2 \<and> x1 \<le> int j \<and> int j < x2"
          using i j by (auto simp: inside_def d)
        have k: "nat ly1 + (i - nat y1) = nat (int i - y)" "nat lx1 + (j - nat x1) = nat (int j - x)"
          using True by (auto simp: inside_def d)
        have r: "nat (int i - y) < lh" "nat (int j - x) < lw"
          using True by (auto simp: inside_def)
        show ?thesis
          using True c px [OF i j] r l m
          by (simp add: k L_def M_def nth_map_2)
      next
        case False
        then have "\<not> (y1 \<le> int i \<and> int i < y2 \<and> x1 \<le> int j \<and> int j < x2)"
          by (auto simp: inside_def d)
        then show ?thesis using False px [OF i j] by auto
      qed
      with res a'(2) show ?thesis by blast
    qed
  qed
qed


lemma add_reflection_unfold:
  assumes "shape background = (bh, bw)" "shape reflection = (lh, lw)"
  shows "add_reflection_to_composite background reflection reflection_mask x y =
     (if min (int bh) (y + int lh) \<le> max 0 y \<or> min (int bw) (x + int lw) \<le> max 0 x
      then Inr background
      else ebind (np_map2 (\<lambda>b m. px_scale b (1 - m))
                    (slice2 (max 0 y) (min (int bh) (y + int lh)) (max 0 x) (min (int bw) (x + int lw))
                       (map (map px_float) background))
                    (slice2 (max 0 (- y)) (max 0 (- y) + (min (int bh) (y + int lh) - max 0 y))
                       (max 0 (- x)) (max 0 (- x) + (min (int bw) (x + int lw) - max 0 x))
                       (map (map (\<lambda>m. of_uint8 m / 255)) reflection_mask))) (\<lambda>t1.
           ebind (np_map2 px_scale
                    (slice2 (max 0 (- y)) (max 0 (- y) + (min (int bh) (y + int lh) - max 0 y))
                       (max 0 (- x)) (max 0 (- x) + (min (int bw) (x + int lw) - max 0 x))
                       (map (map px_float) reflection))
                    (slice2 (max 0 (- y)) (max 0 (- y) + (min (int bh) (y + int lh) - max 0 y))
                       (max 0 (- x)) (max 0 (- x) + (min (int bw) (x + int lw) - max 0 x))
                       (map (map (\<lambda>m. of_uint8 m / 255)) reflection_mask))) (\<lambda>t2.
           ebind (np_map2 px_add t1 t2) (\<lambda>v.
           ebind (assign_slice2 (map (map px_float) background)
                    (max 0 y) (min (int bh) (y + int lh)) (max 0 x) (min (int bw) (x + int lw)) v)
             (\<lambda>result. Inr (map (map px_uint8) result))))))"
proof -
  have ry: "min (int lh) (int bh - y) = max 0 (- y) + (min (int bh) (y + int lh) - max 0 y)"
    by linarith
  have rx: "min (int lw) (int bw - x) = max 0 (- x) + (min (int bw) (x + int lw) - max 0 x)"
    by linarith
  show ?thesis
    by (simp add: add_reflection_to_composite_def reflection_window_def assms Let_def slice2_map
        ry rx del: min_less_iff_conj max_less_iff_conj)
qed

lemma add_reflection_pixels:
  assumes b: "rect bh bw background" and l: "rect lh lw reflection" and m: "rect lh lw reflection_mask"
  shows "\<exists>result. add_reflection_to_composite background reflection reflection_mask x y = Inr result
           \<and> rect bh bw result
           \<and> (\<forall>i<bh. \<forall>j<bw. result ! i ! j =
                 (if inside x y lh lw i j
                  then px_uint8 (alpha_over (px_float (background ! i ! j))
                         (px_float (reflection ! nat (int i - y) ! nat (int j - x)))
                         (of_uint8 (reflection_mask ! nat (int i - y) ! nat (int j - x)) / 255))
                  else background ! i ! j))"
proof -
  consider "bh = 0" | "bh > 0" "lh = 0" | "bh > 0" "lh > 0" by linarith
  then show ?thesis
  proof cases
    case 1
    with b have s0: "shape background = (0, 0)" by (simp add: shape_rect')
    obtain a c where s1: "shape reflection = (a, c)" by (cases "shape reflection")
    have "min 0 (x + int c) \<le> max 0 x" by linarith
    then have "add_reflection_to_composite background reflection reflection_mask x y = Inr background"
      by (simp add: add_reflection_unfold [OF s0 s1])
    with 1 b show ?thesis by simp
  next
    case 2
    with b l have s0: "shape background = (bh, bw)" and s1: "shape reflection = (0, 0)"
      by (simp_all add: shape_rect')
    have "min (int bh) y \<le> max 0 y" by linarith
    then have "add_reflection_to_composite background reflection reflection_mask x y = Inr background"
      by (simp add: add_reflection_unfold [OF s0 s1])
    with 2 b show ?thesis by (auto simp: inside_def)
  next
    case 3
    with b l have sh: "shape background = (bh, bw)" "shape reflection = (lh, lw)"
      by (simp_all add: shape_rect')
    define x1 y1 x2 y2 where "x1 = max 0 x" and "y1 = max 0 y"
      and "x2 = min (int bw) (x + int lw)" and "y2 = min (int bh) (y + int lh)"
    define lx1 ly1 where "lx1 = max 0 (- x)" and "ly1 = max 0 (- y)"
    note d = x1_def y1_def x2_def y2_def lx1_def ly1_def
    show ?thesis
    proof (cases "y2 \<le> y1 \<or> x2 \<le> x1")
      case True
      then have "add_reflection_to_composite background reflection reflection_mask x y = Inr background"
        by (simp add: add_reflection_unfold [OF sh] d)
      moreover have "\<not> inside x y lh lw i j" if "i < bh" "j < bw" for i j
        using True that by (auto simp: inside_def d)
      ultimately show ?thesis using b by simp
    next
      case False
      then have w: "0 \<le> y1" "y1 < y2" "y2 \<le> int bh" "0 \<le> x1" "x1 < x2" "x2 \<le> int bw"
        "0 \<le> ly1" "ly1 + (y2 - y1) \<le> int lh" "0 \<le> lx1" "lx1 + (x2 - x1) \<le> int lw"
        by (auto simp: d)
      define B where "B = map (map px_float) background"
      define L where "L = map (map px_float) reflection"
      define M where "M = map (map (\<lambda>m. of_uint8 m / 255)) reflection_mask"
      have rB: "rect bh bw B" unfolding B_def using b by (rule rect_map)
      have rL: "rect lh lw L" unfolding L_def using l by (rule rect_map)
      have rM: "rect lh lw M" unfolding M_def using m by (rule rect_map)
      from over_region [OF rB rL rM w]
      obtain a' where a': "ebind (np_map2 (\<lambda>b m. px_scale b (1 - m)) (slice2 y1 y2 x1 x2 B)
                        (slice2 ly1 (ly1 + (y2 - y1)) lx1 (lx1 + (x2 - x1)) M)) (\<lambda>t1.
               ebind (np_map2 px_scale (slice2 ly1 (ly1 + (y2 - y1)) lx1 (lx1 + (x2 - x1)) L)
                        (slice2 ly1 (ly1 + (y2 - y1)) lx1 (lx1 + (x2 - x1)) M)) (\<lambda>t2.
               ebind (np_map2 px_add t1 t2) (\<lambda>v.
               assign_slice2 B y1 y2 x1 x2 v))) = Inr a'" "rect bh bw a'"
        and px: "\<And>i j. i < bh \<Longrightarrow> j < bw \<Longrightarrow> a' ! i ! j =
                 (if y1 \<le> int i \<and> int i < y2 \<and> x1 \<le> int j \<and> int j < x2
                  then alpha_over (B ! i ! j)
                         (L ! (nat ly1 + (i - nat y1)) ! (nat lx1 + (j - nat x1)))
                         (M ! (nat ly1 + (i - nat y1)) ! (nat lx1 + (j - nat x1)))
                  else B ! i ! j)"
        by blast
      obtain t1 t2 v where steps:
        "np_map2 (\<lambda>b m. px_scale b (1 - m)) (slice2 y1 y2 x1 x2 B)
            (slice2 ly1 (ly1 + (y2 - y1)) lx1 (lx1 + (x2 - x1)) M) = Inr t1"
        "np_map2 px_scale (slice2 ly1 (ly1 + (y2 - y1)) lx1 (lx1 + (x2 - x1)) L)
            (slice2 ly1 (ly1 + (y2 - y1)) lx1 (lx1 + (x2 - x1)) M) = Inr t2"
        "np_map2 px_add t1 t2 = Inr v" "assign_slice2 B y1 y2 x1 x2 v = Inr a'"
        using a'(1) by (auto simp: ebind_def split: sum.splits)
      have res: "add_reflection_to_composite background reflection reflection_mask x y
                   = Inr (map (map px_uint8) a')"
        using False steps
        by (simp add: add_reflection_unfold [OF sh] d [symmetric] L_def [symmetric] M_def [symmetric]
            B_def [symmetric])
      have rr: "rect bh bw (map (map px_uint8) a')" using a'(2) by (rule rect_map)
      have "map (map px_uint8) a' ! i ! j =
                 (if inside x y lh lw i j
                  then px_uint8 (alpha_over (px_float (background ! i ! j))
                         (px_float (reflection ! nat (int i - y) ! nat (int j - x)))
                         (of_uint8 (reflection_mask ! nat (int i - y) ! nat (int j - x)) / 255))
                  else background ! i ! j)" if i: "i < bh" and j: "j < bw" for i j
      proof (cases "inside x y lh lw i j")
        case True
        then have c: "y1 \<le> int i \<and> int i < y2 \<and> x1 \<le> int j \<and> int j < x2"
          using i j by (auto simp: inside_def d)
        have k: "nat ly1 + (i - nat y1) = nat (int i - y)" "nat lx1 + (j - nat x1) = nat (int j - x)"
          using True by (auto simp: inside_def d)
        have r: "nat (int i - y) < lh" "nat (int j - x) < lw"
          using True by (auto simp: inside_def)
        show ?thesis
          using True c px [OF i j] r l m b i j a'(2)
          by (simp add: k L_def M_def B_def nth_map_2)
      next
        case False
        then have "\<not> (y1 \<le> int i \<and> int i < y2 \<and> x1 \<le> int j \<and> int j < x2)"
          by (auto simp: inside_def d)
        then have "a' ! i ! j = B ! i ! j" using px [OF i j] by auto
        then show ?thesis using False i j b a'(2) by (simp add: B_def nth_map_2)
      qed
      with res rr show ?thesis by blast
    qed
  qed
qed


lemma layer_window_bounds:
  "(case layer_window (bh, bw) (lh, lw) x y of
      (x1, y1, x2, y2, lx1, ly1, lx2, ly2) \<Rightarrow>
        x1 < x2 \<and> y1 < y2 \<longrightarrow>
          0 \<le> x1 \<and> x2 \<le> int bw \<and> 0 \<le> y1 \<and> y2 \<le> int bh
          \<and> 0 \<le> lx1 \<and> lx1 < lx2 \<and> lx2 \<le> int lw \<and> 0 \<le> ly1 \<and> ly1 < ly2 \<and> ly2 \<le> int lh
          \<and> lx2 - lx1 = x2 - x1 \<and> ly2 - ly1 = y2 - y1)"
  by (simp add: layer_window_def Let_def) linarith

lemma reflection_window_bounds:
  "(case reflection_window (bh, bw) (lh, lw) x y of
      (y1, y2, x1, x2, ry1, ry2, rx1, rx2) \<Rightarrow>
        x1 < x2 \<and> y1 < y2 \<longrightarrow>
          0 \<le> x1 \<and> x2 \<le> int bw \<and> 0 \<le> y1 \<and> y2 \<le> int bh
          \<and> 0 \<le> rx1 \<and> rx1 < rx2 \<and> rx2 \<le> int lw \<and> 0 \<le> ry1 \<and> ry1 < ry2 \<and> ry2 \<le> int lh
          \<and> rx2 - rx1 = x2 - x1 \<and> ry2 - ry1 = y2 - y1)"
  by (simp add: reflection_window_def Let_def) linarith

subsection \<open>Clipped blending of a positioned layer\<close>

text \<open>
  Claim C2. For every layer and alpha mask of the same size blended at an arbitrary integer
  position \<open>(x, y)\<close>, \<open>_blend_layer\<close> and \<open>add_reflection_to_composite\<close> return without
  error a canvas of the same size as the one they are given; a pixel of the canvas is
  changed (to the over composite of the canvas pixel and the layer pixel at the offset
  \<open>(i - y, j - x)\<close>) only if it lies in the layer's positioned rectangle, and is the pixel
  of the canvas otherwise; the layer pixel read there is in the bounds of the layer, and
  the bounds of the two slices are those of the overlap: never negative (a negative bound
  would wrap around), never beyond the array, and of equal extent.
\<close>

theorem layer_blend_clipped:
  assumes "rect bh bw base" and "rect bh bw background"
    and "rect lh lw layer" and "rect lh lw msk"
  shows "(\<exists>base'. blend_layer base layer msk x y = Inr base' \<and> rect bh bw base'
           \<and> (\<forall>i<bh. \<forall>j<bw. base' ! i ! j =
                 (if inside x y lh lw i j
                  then alpha_over (base ! i ! j)
                         (px_float (bgr2rgb (layer ! nat (int i - y) ! nat (int j - x))))
                         (of_uint8 (msk ! nat (int i - y) ! nat (int j - x)) / 255)
                  else base ! i ! j)))
     \<and> (\<exists>result. add_reflection_to_composite background layer msk x y = Inr result
           \<and> rect bh bw result
           \<and> (\<forall>i<bh. \<forall>j<bw. result ! i ! j =
                 (if inside x y lh lw i j
                  then px_uint8 (alpha_over (px_float (background ! i ! j))
                         (px_float (layer ! nat (int i - y) ! nat (int j - x)))
                         (of_uint8 (msk ! nat (int i - y) ! nat (int j - x)) / 255))
                  else background ! i ! j)))
     \<and> (\<forall>i j. inside x y lh lw i j \<longrightarrow> nat (int i - y) < lh \<and> nat (int j - x) < lw)
     \<and> (case layer_window (bh, bw) (lh, lw) x y of
          (x1, y1, x2, y2, lx1, ly1, lx2, ly2) \<Rightarrow>
            x1 < x2 \<and> y1 < y2 \<longrightarrow>
              0 \<le> x1 \<and> x2 \<le> int bw \<and> 0 \<le> y1 \<and> y2 \<le> int bh
              \<and> 0 \<le> lx1 \<and> lx1 < lx2 \<and> lx2 \<le> int lw \<and> 0 \<le> ly1 \<and> ly1 < ly2 \<and> ly2 \<le> int lh
              \<and> lx2 - lx1 = x2 - x1 \<and> ly2 - ly1 = y2 - y1)
     \<and> (case reflection_window (bh, bw) (lh, lw) x y of
          (y1, y2, x1, x2, ry1, ry2, rx1, rx2) \<Rightarrow>
            x1 < x2 \<and> y1 < y2 \<longrightarrow>
              0 \<le> x1 \<and> x2 \<le> int bw \<and> 0 \<le> y1 \<and> y2 \<le> int bh
              \<and> 0 \<le> rx1 \<and> rx1 < rx2 \<and> rx2 \<le> int lw \<and> 0 \<le> ry1 \<and> ry1 < ry2 \<and> ry2 \<le> int lh
              \<and> rx2 - rx1 = x2 - x1 \<and> ry2 - ry1 = y2 - y1)"
proof -
  have "\<forall>i j. inside x y lh lw i j \<longrightarrow> nat (int i - y) < lh \<and> nat (int j - x) < lw"
    by (auto simp: inside_def)
  then show ?thesis
    using blend_layer_pixels [OF assms(1,3,4), of x y]
      add_reflection_pixels [OF assms(2,3,4), of x y]
      layer_window_bounds [where bh = bh and bw = bw and lh = lh and lw = lw and x = x and y = y]
      reflection_window_bounds [where bh = bh and bw = bw and lh = lh and lw = lw and x = x and y = y]
    by (intro conjI) assumption+
qed

theorem layer_blend_clipped_witness:
  "\<exists>base'. blend_layer [[(10, 10, 10), (20, 20, 20)]] [[(1, 2, 3), (4, 5, 6)]] [[255, 0]] 1 0
             = Inr base'
         \<and> base' ! 0 ! 0 = (10, 10, 10) \<and> base' ! 0 ! 1 = (3, 2, 1)"
proof -
  have b: "rect 1 2 [[(10, 10, 10), (20, 20, 20) :: fpixel]]" by (simp add: rect_def)
  have g: "rect 1 2 [[(10, 10, 10), (20, 20, 20) :: pixel]]" by (simp add: rect_def)
  have l: "rect 1 2 [[(1, 2, 3), (4, 5, 6) :: pixel]]" by (simp add: rect_def)
  have m: "rect 1 2 [[255, 0 :: uint8]]" by (simp add: rect_def)
  from layer_blend_clipped [OF b g l m, of 1 0]
  obtain base' where r: "blend_layer [[(10, 10, 10), (20, 20, 20)]] [[(1, 2, 3), (4, 5, 6)]] [[255, 0]] 1 0
             = Inr base'"
    and px: "\<forall>i<1. \<forall>j<2. base' ! i ! j =
                 (if inside 1 0 1 2 i j
                  then alpha_over ([[(10, 10, 10), (20, 20, 20)]] ! i ! j)
                         (px_float (bgr2rgb ([[(1, 2, 3), (4, 5, 6)]] ! nat (int i - 0) ! nat (int j - 1))))
                         (of_uint8 ([[255, 0]] ! nat (int i - 0) ! nat (int j - 1)) / 255)
                  else [[(10, 10, 10), (20, 20, 20)]] ! i ! j)"
    by blast
  from px have "base' ! 0 ! 0 = (10, 10, 10)"
    by (simp add: inside_def)
  moreover from px have "base' ! 0 ! 1 = (3, 2, 1)"
    by (simp add: inside_def alpha_over_def px_add_def px_scale_def px_float_def bgr2rgb_def of_uint8_def)
  ultimately show ?thesis using r by blast
qed

subsection \<open>Layer order and the rule of the shadows\<close>

lemma channel_op_rect:
  assumes "rect h w base" "rect h w s"
  shows "channel_op f base s c = Inr (map2 (map2 (\<lambda>p v. set_chan c p (f (chan c p) v))) base s)
       \<and> rect h w (map2 (map2 (\<lambda>p v. set_chan c p (f (chan c p) v))) base s)"
proof -
  define vals where "vals = map2 (map2 (\<lambda>p v. f (chan c p) v)) base s"
  have rv: "rect h w vals" unfolding vals_def using assms by (rule rect_map2)
  have e1: "np_map2 (\<lambda>p v. f (chan c p) v) base s = Inr vals"
    unfolding vals_def using assms by (rule np_map2_rect)
  have e2: "assign_all (set_chan c) base vals = Inr (map2 (map2 (set_chan c)) base vals)"
    using assms(1) rv by (rule assign_all_rect)
  have r2: "rect h w (map2 (map2 (set_chan c)) base vals)"
    using assms(1) rv by (rule rect_map2)
  have r3: "rect h w (map2 (map2 (\<lambda>p v. set_chan c p (f (chan c p) v))) base s)"
    using assms by (rule rect_map2)
  have "map2 (map2 (set_chan c)) base vals = map2 (map2 (\<lambda>p v. set_chan c p (f (chan c p) v))) base s"
    using r2 r3
  proof (rule array2_eqI)
    fix i j assume "i < h" "j < w"
    then show "map2 (map2 (set_chan c)) base vals ! i ! j
        = map2 (map2 (\<lambda>p v. set_chan c p (f (chan c p) v))) base s ! i ! j"
      using assms rv by (simp add: nth_map2_2 vals_def)
  qed
  with e1 e2 r3 show ?thesis by (simp add: channel_op_def)
qed

lemma channel_loop_rect:
  assumes b: "rect h w base" and s: "rect h w s"
  shows "channel_loop f s [0, 1, 2] base
           = Inr (map2 (map2 (\<lambda>p v. case p of (a, b, c) \<Rightarrow> (f a v, f b v, f c v))) base s)"
proof -
  define F where "F = (\<lambda>c p v. set_chan c p (f (chan c p) v))"
  define b0 where "b0 = map2 (map2 (F 0)) base s"
  define b1 where "b1 = map2 (map2 (F 1)) b0 s"
  define b2 where "b2 = map2 (map2 (F 2)) b1 s"
  have s0: "channel_op f base s 0 = Inr b0" "rect h w b0"
    using channel_op_rect [OF b s, of f 0] by (simp_all add: b0_def F_def)
  have s1: "channel_op f b0 s 1 = Inr b1" "rect h w b1"
    using channel_op_rect [OF s0(2) s, of f 1] by (simp_all add: b1_def F_def)
  have s2: "channel_op f b1 s 2 = Inr b2" "rect h w b2"
    using channel_op_rect [OF s1(2) s, of f 2] by (simp_all add: b2_def F_def)
  have r: "rect h w (map2 (map2 (\<lambda>p v. case p of (a, b, c) \<Rightarrow> (f a v, f b v, f c v))) base s)"
    using b s by (rule rect_map2)
  have "b2 = map2 (map2 (\<lambda>p v. case p of (a, b, c) \<Rightarrow> (f a v, f b v, f c v))) base s"
    using s2(2) r
  proof (rule array2_eqI)
    fix i j assume ij: "i < h" "j < w"
    obtain p0 p1 p2 where p: "base ! i ! j = (p0, p1, p2)" by (cases "base ! i ! j")
    show "b2 ! i ! j = map2 (map2 (\<lambda>p v. case p of (a, b, c) \<Rightarrow> (f a v, f b v, f c v))) base s ! i ! j"
      using ij b s s0(2) s1(2)
      by (simp add: b2_def b1_def b0_def nth_map2_2 F_def p chan_def set_chan_def)
  qed
  with s0 s1 s2 show ?thesis by simp
qed

lemma blend_shadow_rect:
  assumes b: "rect h w base" and s: "rect h w shadow"
  shows "blend_shadow cv base shadow x y = Inr (map2 (map2 darken) base shadow)"
proof -
  define sn where "sn = map (map (\<lambda>v. of_uint8 v / 255)) shadow"
  have rs: "rect h w sn" unfolding sn_def using s by (rule rect_map)
  have sh: "shape shadow = shape base" using b s by (simp add: shape_rect')
  have r1: "rect h w (map2 (map2 (\<lambda>p v. case p of (a, b, c) \<Rightarrow> (a * (1 - v), b * (1 - v), c * (1 - v)))) base sn)"
    using b rs by (rule rect_map2)
  have r2: "rect h w (map2 (map2 darken) base shadow)" using b s by (rule rect_map2)
  have "map2 (map2 (\<lambda>p v. case p of (a, b, c) \<Rightarrow> (a * (1 - v), b * (1 - v), c * (1 - v)))) base sn
      = map2 (map2 darken) base shadow"
    using r1 r2
  proof (rule array2_eqI)
    fix i j assume ij: "i < h" "j < w"
    obtain p0 p1 p2 where p: "base ! i ! j = (p0, p1, p2)" by (cases "base ! i ! j")
    show "map2 (map2 (\<lambda>p v. case p of (a, b, c) \<Rightarrow> (a * (1 - v), b * (1 - v), c * (1 - v)))) base sn ! i ! j
        = map2 (map2 darken) base shadow ! i ! j"
      using ij b s rs
      by (simp add: nth_map2_2 sn_def nth_map_2 p darken_def px_scale_def)
  qed
  with channel_loop_rect [OF b rs, of "\<lambda>b s. b * (1 - s)"] show ?thesis
    by (cases "shape base") (simp add: blend_shadow_def sh sn_def)
qed


lemma channel_loop_norm:
  assumes b: "rect h w base" and s: "rect h w shadow"
  shows "channel_loop f (map (map (\<lambda>v. of_uint8 v / 255)) shadow) [0, 1, 2] base
           = Inr (map2 (map2 (\<lambda>p v. case p of (a, b, c) \<Rightarrow>
                    (f a (of_uint8 v / 255), f b (of_uint8 v / 255), f c (of_uint8 v / 255)))) base shadow)"
proof -
  define sn where "sn = map (map (\<lambda>v. of_uint8 v / 255)) shadow"
  have rs: "rect h w sn" unfolding sn_def using s by (rule rect_map)
  have r1: "rect h w (map2 (map2 (\<lambda>p v. case p of (a, b, c) \<Rightarrow> (f a v, f b v, f c v))) base sn)"
    using b rs by (rule rect_map2)
  have r2: "rect h w (map2 (map2 (\<lambda>p v. case p of (a, b, c) \<Rightarrow>
                    (f a (of_uint8 v / 255), f b (of_uint8 v / 255), f c (of_uint8 v / 255)))) base shadow)"
    using b s by (rule rect_map2)
  have "map2 (map2 (\<lambda>p v. case p of (a, b, c) \<Rightarrow> (f a v, f b v, f c v))) base sn
      = map2 (map2 (\<lambda>p v. case p of (a, b, c) \<Rightarrow>
                    (f a (of_uint8 v / 255), f b (of_uint8 v / 255), f c (of_uint8 v / 255)))) base shadow"
    using r1 r2
  proof (rule array2_eqI)
    fix i j assume ij: "i < h" "j < w"
    then show "map2 (map2 (\<lambda>p v. case p of (a, b, c) \<Rightarrow> (f a v, f b v, f c v))) base sn ! i ! j
        = map2 (map2 (\<lambda>p v. case p of (a, b, c) \<Rightarrow>
                    (f a (of_uint8 v / 255), f b (of_uint8 v / 255), f c (of_uint8 v / 255)))) base shadow ! i ! j"
      using b s rs by (simp add: nth_map2_2 sn_def nth_map_2)
  qed
  with channel_loop_rect [OF b rs, of f] show ?thesis by (simp add: sn_def)
qed

lemma darken_eq:
  "(\<lambda>p v. case p of (a, b, c) \<Rightarrow>
       (a * (1 - of_uint8 v / 255), b * (1 - of_uint8 v / 255), c * (1 - of_uint8 v / 255))) = darken"
  by (intro ext) (simp add: darken_def px_scale_def split: prod.splits)

lemma subtract_shadow_eq:
  "(\<lambda>p v. case p of (a, b, c) \<Rightarrow>
       (a - of_uint8 v / 255 * 100, b - of_uint8 v / 255 * 100, c - of_uint8 v / 255 * 100))
     = subtract_shadow"
  by (intro ext) (simp add: subtract_shadow_def split: prod.splits)

lemma size2_rect: "rect h w a \<Longrightarrow> 0 < h \<Longrightarrow> 0 < w \<Longrightarrow> size2 a \<noteq> 0"
  by (simp add: size2_def shape_rect')

lemma rect_apply_shadow:
  "rect h w a \<Longrightarrow> shadow_layer_ok h w v \<Longrightarrow> rect h w (apply_shadow rule v a)"
  by (auto simp: apply_shadow_def shadow_layer_ok_def rect_map2 split: option.splits)

lemma blend_shadows_step:
  assumes "rect h w result" "shadow_layer_ok h w (shadows t)" "0 < h" "0 < w"
  shows "blend_shadows cv shadows (t # rest) result
           = blend_shadows cv shadows rest (apply_shadow darken (shadows t) result)"
  using assms
  by (auto simp: apply_shadow_def shadow_layer_ok_def size2_rect blend_shadow_rect
      split: option.splits)

lemma shadow_pass_step:
  assumes "rect h w result" "shadow_layer_ok h w (shadows t)"
  shows "shadow_pass blend_mode shadows (t # rest) result
           = shadow_pass blend_mode shadows rest
               (apply_shadow (if blend_mode = ''multiply'' then darken else subtract_shadow)
                  (shadows t) result)"
proof (cases "shadows t")
  case None
  then show ?thesis by (simp add: apply_shadow_def)
next
  case (Some v)
  show ?thesis
  proof (cases v)
    case None
    with Some assms(2) show ?thesis by (simp add: shadow_layer_ok_def)
  next
    case (Some s)
    with \<open>shadows t = Some v\<close> assms(2) have s: "rect h w s" and t: "shadows t = Some (Some s)"
      by (simp_all add: shadow_layer_ok_def)
    have m: "channel_loop (\<lambda>b s. b * (1 - s)) (map (map (\<lambda>v. of_uint8 v / 255)) s) [0, 1, 2] result
        = Inr (map2 (map2 darken) result s)"
      using channel_loop_norm [OF assms(1) s, of "\<lambda>b s. b * (1 - s)"] unfolding darken_eq .
    have o: "channel_loop (\<lambda>b s. b - s * 100) (map (map (\<lambda>v. of_uint8 v / 255)) s) [0, 1, 2] result
        = Inr (map2 (map2 subtract_shadow) result s)"
      using channel_loop_norm [OF assms(1) s, of "\<lambda>b s. b - s * 100"] unfolding subtract_shadow_eq .
    show ?thesis
      by (simp only: shadow_pass.simps t option.case Let_def m o apply_shadow_def ebind_Inr
          split: if_splits) simp
  qed
qed

lemma blend_shadows_all:
  assumes "rect h w result" "0 < h" "0 < w"
    and "shadow_layer_ok h w (shadows ''drop'')" "shadow_layer_ok h w (shadows ''ambient'')"
      "shadow_layer_ok h w (shadows ''contact'')"
  shows "blend_shadows cv shadows [''drop'', ''ambient'', ''contact''] result
           = Inr (apply_shadow darken (shadows ''contact'')
                   (apply_shadow darken (shadows ''ambient'')
                     (apply_shadow darken (shadows ''drop'') result)))"
proof -
  have r1: "rect h w (apply_shadow darken (shadows ''drop'') result)"
    using assms by (intro rect_apply_shadow)
  have r2: "rect h w (apply_shadow darken (shadows ''ambient'')
                     (apply_shadow darken (shadows ''drop'') result))"
    using assms r1 by (intro rect_apply_shadow)
  have e1: "blend_shadows cv shadows [''drop'', ''ambient'', ''contact''] result
      = blend_shadows cv shadows [''ambient'', ''contact''] (apply_shadow darken (shadows ''drop'') result)"
    using assms(1,4,2,3) by (rule blend_shadows_step)
  have e2: "blend_shadows cv shadows [''ambient'', ''contact''] (apply_shadow darken (shadows ''drop'') result)
      = blend_shadows cv shadows [''contact'']
          (apply_shadow darken (shadows ''ambient'') (apply_shadow darken (shadows ''drop'') result))"
    using r1 assms(5,2,3) by (rule blend_shadows_step)
  have e3: "blend_shadows cv shadows [''contact'']
          (apply_shadow darken (shadows ''ambient'') (apply_shadow darken (shadows ''drop'') result))
      = blend_shadows cv shadows []
          (apply_shadow darken (shadows ''contact'')
            (apply_shadow darken (shadows ''ambient'') (apply_shadow darken (shadows ''drop'') result)))"
    using r2 assms(6,2,3) by (rule blend_shadows_step)
  show ?thesis
    by (simp only: e1 e2 e3 blend_shadows.simps(1))
qed

lemma shadow_pass_all:
  assumes "rect h w result"
    and "shadow_layer_ok h w (shadows ''drop'')" "shadow_layer_ok h w (shadows ''ambient'')"
      "shadow_layer_ok h w (shadows ''contact'')"
  shows "shadow_pass blend_mode shadows [''drop'', ''ambient'', ''contact''] result
           = Inr (apply_shadow (if blend_mode = ''multiply'' then darken else subtract_shadow)
                    (shadows ''contact'')
                   (apply_shadow (if blend_mode = ''multiply'' then darken else subtract_shadow)
                      (shadows ''ambient'')
                     (apply_shadow (if blend_mode = ''multiply'' then darken else subtract_shadow)
                        (shadows ''drop'') result)))"
proof -
  define rule where "rule = (if blend_mode = ''multiply'' then darken else subtract_shadow)"
  have r1: "rect h w (apply_shadow rule (shadows ''drop'') result)"
    using assms by (intro rect_apply_shadow)
  have r2: "rect h w (apply_shadow rule (shadows ''ambient'')
                     (apply_shadow rule (shadows ''drop'') result))"
    using assms r1 by (intro rect_apply_shadow)
  have e1: "shadow_pass blend_mode shadows [''drop'', ''ambient'', ''contact''] result
      = shadow_pass blend_mode shadows [''ambient'', ''contact''] (apply_shadow rule (shadows ''drop'') result)"
    unfolding rule_def using assms(1,2) by (rule shadow_pass_step)
  have e2: "shadow_pass blend_mode shadows [''ambient'', ''contact''] (apply_shadow rule (shadows ''drop'') result)
      = shadow_pass blend_mode shadows [''contact'']
          (apply_shadow rule (shadows ''ambient'') (apply_shadow rule (shadows ''drop'') result))"
    using r1 assms(3) unfolding rule_def by (rule shadow_pass_step)
  have e3: "shadow_pass blend_mode shadows [''contact'']
          (apply_shadow rule (shadows ''ambient'') (apply_shadow rule (shadows ''drop'') result))
      = shadow_pass blend_mode shadows []
          (apply_shadow rule (shadows ''contact'')
            (apply_shadow rule (shadows ''ambient'') (apply_shadow rule (shadows ''drop'') result)))"
    using r2 assms(4) unfolding rule_def by (rule shadow_pass_step)
  show ?thesis
    unfolding rule_def [symmetric] by (simp only: e1 e2 e3 shadow_pass.simps(1))
qed


lemma composite_final_steps:
  assumes bg: "rect bh bw background" "0 < bh" "0 < bw"
    and car: "rect ch cw car_image" "rect ch cw car_mask"
    and sh: "shadow_layer_ok bh bw (shadows ''drop'')" "shadow_layer_ok bh bw (shadows ''ambient'')"
      "shadow_layer_ok bh bw (shadows ''contact'')"
    and pos: "(x, y) = (case car_position of
                 None \<Rightarrow> default_car_position (int bw) (int bh)
                           (int (snd (shape car_image))) (int (fst (shape car_image)))
               | Some p \<Rightarrow> p)"
    and r1: "(case (reflection, reflection_mask) of
                (Some r, Some m) \<Rightarrow>
                  blend_layer (map (map px_float) background) r m x (y + int (fst (shape car_image)))
              | _ \<Rightarrow> Inr (map (map px_float) background)) = Inr r1" "rect bh bw r1"
  shows "\<exists>r2. blend_layer
               (apply_shadow darken (shadows ''contact'')
                 (apply_shadow darken (shadows ''ambient'')
                   (apply_shadow darken (shadows ''drop'') r1))) car_image car_mask x y = Inr r2
            \<and> composite_final cv background car_image car_mask shadows reflection reflection_mask
                 car_position None = Inr (map (map px_uint8) r2)"
proof -
  define S where "S = apply_shadow darken (shadows ''contact'')
                 (apply_shadow darken (shadows ''ambient'')
                   (apply_shadow darken (shadows ''drop'') r1))"
  have rS: "rect bh bw S"
    unfolding S_def using r1(2) sh by (intro rect_apply_shadow)
  from blend_layer_pixels [OF rS car, of x y]
  obtain r2 where r2: "blend_layer S car_image car_mask x y = Inr r2" by blast
  have sb: "shape background = (bh, bw)" using bg by (simp add: shape_rect')
  have bs: "blend_shadows cv shadows [''drop'', ''ambient'', ''contact''] r1 = Inr S"
    unfolding S_def using r1(2) bg(2,3) sh by (rule blend_shadows_all)
  obtain car_h car_w where sc: "shape car_image = (car_h, car_w)" by (cases "shape car_image")
  have "composite_final cv background car_image car_mask shadows reflection reflection_mask
          car_position None = Inr (map (map px_uint8) r2)"
  proof -
    have pos': "(case car_position of
                   None \<Rightarrow> default_car_position (int bw) (int bh) (int car_w) (int car_h)
                 | Some p \<Rightarrow> p) = (x, y)"
      using pos by (cases car_position) (simp_all add: sc)
    have r1': "(case (reflection, reflection_mask) of
                (Some r, Some m) \<Rightarrow> blend_layer (map (map px_float) background) r m x (y + int car_h)
              | _ \<Rightarrow> Inr (map (map px_float) background)) = Inr r1"
      using r1(1) by (cases reflection; cases reflection_mask) (simp_all add: sc)
    show ?thesis
      by (simp only: composite_final_def option.case sb sc fst_conv snd_conv ebind_Inr prod.case
          Let_def pos' r1' [unfolded prod.case] bs r2)
  qed
  with r2 show ?thesis unfolding S_def by blast
qed

text \<open>
  Claim C1, amended. On a canvas of positive size, with shadow layers of the size of the
  canvas (or absent), \<open>composite_final\<close> blends bottom to top in the order background,
  reflection (when there is one), drop shadow, ambient shadow, contact shadow, subject, and
  blends every shadow by the multiplicative rule \<open>result \<cdot> (1 - intensity / 255)\<close> per
  channel, as \<open>_blend_shadow\<close> does for every base and shadow of equal size.
  \<open>composite_shadows\<close> blends in the order drop, ambient, contact, by the same
  multiplicative rule when the blend mode is \<open>multiply\<close>, and by the subtractive rule
  \<open>result - (intensity / 255) \<cdot> 100\<close> for every other blend mode.
\<close>

theorem composite_order_and_rule:
  assumes bg: "rect bh bw background" "0 < bh" "0 < bw"
    and refl: "rect rh rw r" "rect rh rw m"
    and car: "rect ch cw car_image" "rect ch cw car_mask"
    and sh: "shadow_layer_ok bh bw (shadows ''drop'')" "shadow_layer_ok bh bw (shadows ''ambient'')"
      "shadow_layer_ok bh bw (shadows ''contact'')"
    and pos: "(x, y) = (case car_position of
                 None \<Rightarrow> default_car_position (int bw) (int bh)
                           (int (snd (shape car_image))) (int (fst (shape car_image)))
               | Some p \<Rightarrow> p)"
  shows "(\<exists>r1 r2.
            blend_layer (map (map px_float) background) r m x (y + int (fst (shape car_image))) = Inr r1
          \<and> blend_layer
               (apply_shadow darken (shadows ''contact'')
                 (apply_shadow darken (shadows ''ambient'')
                   (apply_shadow darken (shadows ''drop'') r1))) car_image car_mask x y = Inr r2
          \<and> composite_final cv background car_image car_mask shadows (Some r) (Some m)
               car_position None = Inr (map (map px_uint8) r2))
     \<and> (\<exists>r2.
            blend_layer
               (apply_shadow darken (shadows ''contact'')
                 (apply_shadow darken (shadows ''ambient'')
                   (apply_shadow darken (shadows ''drop'') (map (map px_float) background))))
               car_image car_mask x y = Inr r2
          \<and> composite_final cv background car_image car_mask shadows None None
               car_position None = Inr (map (map px_uint8) r2))
     \<and> composite_shadows background shadows ''multiply''
          = Inr (map (map px_uint8)
                  (apply_shadow darken (shadows ''contact'')
                    (apply_shadow darken (shadows ''ambient'')
                      (apply_shadow darken (shadows ''drop'') (map (map px_float) background)))))
     \<and> (blend_mode \<noteq> ''multiply'' \<longrightarrow>
          composite_shadows background shadows blend_mode
            = Inr (map (map px_uint8)
                    (apply_shadow subtract_shadow (shadows ''contact'')
                      (apply_shadow subtract_shadow (shadows ''ambient'')
                        (apply_shadow subtract_shadow (shadows ''drop'')
                           (map (map px_float) background))))))
     \<and> (\<forall>base s. rect bh bw base \<and> rect bh bw s \<longrightarrow>
           blend_shadow cv base s 0 0 = Inr (map2 (map2 darken) base s))"
proof -
  define B where "B = map (map px_float) background"
  have rB: "rect bh bw B" unfolding B_def using bg(1) by (rule rect_map)
  from blend_layer_pixels [OF rB refl, of x "y + int (fst (shape car_image))"]
  obtain r1 where r1: "blend_layer B r m x (y + int (fst (shape car_image))) = Inr r1" "rect bh bw r1"
    by blast
  have c1: "(case (Some r, Some m) of
                (Some r, Some m) \<Rightarrow>
                  blend_layer (map (map px_float) background) r m x (y + int (fst (shape car_image)))
              | _ \<Rightarrow> Inr (map (map px_float) background)) = Inr r1"
    using r1(1) by (simp add: B_def)
  have c2: "(case (None :: image option, None :: gray option) of
                (Some r, Some m) \<Rightarrow>
                  blend_layer (map (map px_float) background) r m x (y + int (fst (shape car_image)))
              | _ \<Rightarrow> Inr (map (map px_float) background)) = Inr B"
    by (simp add: B_def)
  have p1: "\<exists>r1 r2.
            blend_layer B r m x (y + int (fst (shape car_image))) = Inr r1
          \<and> blend_layer
               (apply_shadow darken (shadows ''contact'')
                 (apply_shadow darken (shadows ''ambient'')
                   (apply_shadow darken (shadows ''drop'') r1))) car_image car_mask x y = Inr r2
          \<and> composite_final cv background car_image car_mask shadows (Some r) (Some m)
               car_position None = Inr (map (map px_uint8) r2)"
    using composite_final_steps [OF bg car sh pos c1 r1(2), of cv] r1(1) by blast
  have p2: "\<exists>r2.
            blend_layer
               (apply_shadow darken (shadows ''contact'')
                 (apply_shadow darken (shadows ''ambient'')
                   (apply_shadow darken (shadows ''drop'') B)))
               car_image car_mask x y = Inr r2
          \<and> composite_final cv background car_image car_mask shadows None None
               car_position None = Inr (map (map px_uint8) r2)"
    using composite_final_steps [OF bg car sh pos c2 rB, of cv] by blast
  have p3: "composite_shadows background shadows mode
          = Inr (map (map px_uint8)
                  (apply_shadow (if mode = ''multiply'' then darken else subtract_shadow) (shadows ''contact'')
                    (apply_shadow (if mode = ''multiply'' then darken else subtract_shadow) (shadows ''ambient'')
                      (apply_shadow (if mode = ''multiply'' then darken else subtract_shadow) (shadows ''drop'') B))))"
    for mode
    using shadow_pass_all [OF rB sh, of mode]
    by (simp only: composite_shadows_def B_def [symmetric] ebind_Inr)
  have p4: "\<forall>base s. rect bh bw base \<and> rect bh bw s \<longrightarrow>
           blend_shadow cv base s 0 0 = Inr (map2 (map2 darken) base s)"
    using blend_shadow_rect by blast
  have p3a: "composite_shadows background shadows ''multiply''
          = Inr (map (map px_uint8)
                  (apply_shadow darken (shadows ''contact'')
                    (apply_shadow darken (shadows ''ambient'')
                      (apply_shadow darken (shadows ''drop'') B))))"
    using p3 [of "''multiply''"] by simp
  have p3b: "blend_mode \<noteq> ''multiply'' \<longrightarrow>
          composite_shadows background shadows blend_mode
            = Inr (map (map px_uint8)
                    (apply_shadow subtract_shadow (shadows ''contact'')
                      (apply_shadow subtract_shadow (shadows ''ambient'')
                        (apply_shadow subtract_shadow (shadows ''drop'') B))))"
    using p3 [of blend_mode] by simp
  from p1 p2 p3a p3b p4 show ?thesis
    unfolding B_def by (intro conjI) assumption+
qed

text \<open>
  Claim C1, as stated, fails for \<open>composite_shadows\<close> with a blend mode other than
  \<open>multiply\<close>: a drop shadow of intensity 255 on a pixel of value 200 leaves 100 in mode
  \<open>overlay\<close>, where the multiplicative rule gives 0.
\<close>

theorem composite_shadows_overlay_subtracts:
  "composite_shadows [[(200, 200, 200)]] [''drop'' \<mapsto> Some [[255]]] ''overlay''
     = Inr [[(100, 100, 100)]]
   \<and> map (map px_uint8) (map2 (map2 darken) [[(200, 200, 200)]] [[255]]) = [[(0, 0, 0)]]"
  by (simp add: composite_shadows_def channel_op_def np_map2_def shape_def broadcast_shapes_def
      bdim_def expand_def assign_all_def chan_def set_chan_def px_float_def px_uint8_def
      of_uint8_def to_uint8_def clip255_def py_int_def darken_def px_scale_def)


theorem composite_order_and_rule_witness:
  "composite_shadows [[(200, 200, 200)]] [''drop'' \<mapsto> Some [[51]]] ''multiply''
     = Inr [[(160, 160, 160)]]"
proof -
  have bg: "rect 1 1 [[(200, 200, 200) :: pixel]]" "(0 :: nat) < 1" "(0 :: nat) < 1"
    by (simp_all add: rect_def)
  have refl: "rect 1 1 [[(1, 2, 3) :: pixel]]" "rect 1 1 [[0 :: uint8]]"
    by (simp_all add: rect_def)
  have car: "rect 1 1 [[(9, 8, 7) :: pixel]]" "rect 1 1 [[255 :: uint8]]"
    by (simp_all add: rect_def)
  have sh: "shadow_layer_ok 1 1 ([''drop'' \<mapsto> Some [[51]]] ''drop'')"
    "shadow_layer_ok 1 1 ([''drop'' \<mapsto> Some [[51]]] ''ambient'')"
    "shadow_layer_ok 1 1 ([''drop'' \<mapsto> Some [[51]]] ''contact'')"
    by (simp_all add: shadow_layer_ok_def rect_def)
  have pos: "(0, 0) = (case Some (0 :: int, 0 :: int) of
                 None \<Rightarrow> default_car_position (int 1) (int 1)
                           (int (snd (shape [[(9, 8, 7) :: pixel]]))) (int (fst (shape [[(9, 8, 7) :: pixel]])))
               | Some p \<Rightarrow> p)"
    by simp
  from composite_order_and_rule [OF bg refl car sh pos]
  have "composite_shadows [[(200, 200, 200)]] [''drop'' \<mapsto> Some [[51]]] ''multiply''
          = Inr (map (map px_uint8)
                  (apply_shadow darken ([''drop'' \<mapsto> Some [[51]]] ''contact'')
                    (apply_shadow darken ([''drop'' \<mapsto> Some [[51]]] ''ambient'')
                      (apply_shadow darken ([''drop'' \<mapsto> Some [[51]]] ''drop'')
                         (map (map px_float) [[(200, 200, 200)]])))))"
    by blast
  then show ?thesis
    by (simp add: apply_shadow_def darken_def px_scale_def px_float_def px_uint8_def of_uint8_def
        to_uint8_def clip255_def py_int_def)
qed

subsection \<open>Auto-scale\<close>

text \<open>
  Claim C8. Auto-scale never enlarges: the scale factor is applied only when it is strictly
  less than 1, so a subject (of positive width and height) whose scale factor
  \<open>min(maxWidthRatio \<cdot> canvasWidth / subjectWidth, maxHeightRatio \<cdot> canvasHeight / subjectHeight)\<close>
  is not below 1, which is the case for every subject that fits within the maximal ratios,
  is returned unchanged, image and mask.
\<close>

theorem scale_car_to_fit_unchanged:
  assumes sh: "shape car_image = (car_h, car_w)"
    and pos: "0 < car_w" "0 < car_h"
  shows "(\<not> spec_scale_factor mwr mhr tw th car_w car_h < 1 \<longrightarrow>
            scale_car_to_fit cv car_image car_mask tw th mwr mhr = Inr (car_image, car_mask))
       \<and> (real car_w \<le> mwr * real_of_int tw \<and> real car_h \<le> mhr * real_of_int th \<longrightarrow>
            scale_car_to_fit cv car_image car_mask tw th mwr mhr = Inr (car_image, car_mask))"
proof -
  have fits: "scale_car_to_fit cv car_image car_mask tw th mwr mhr = Inr (car_image, car_mask)"
    if w: "real car_w \<le> mwr * real_of_int tw" and h: "real car_h \<le> mhr * real_of_int th"
  proof -
    have "int car_w \<le> py_int (real_of_int tw * mwr)"
      using w by (intro le_py_int) (simp add: mult.commute)
    then have a: "1 \<le> real_of_int (py_int (real_of_int tw * mwr)) / real car_w"
      using pos by (simp add: le_divide_eq)
    have "int car_h \<le> py_int (real_of_int th * mhr)"
      using h by (intro le_py_int) (simp add: mult.commute)
    then have b: "1 \<le> real_of_int (py_int (real_of_int th * mhr)) / real car_h"
      using pos by (simp add: le_divide_eq)
    from a b have "\<not> min (real_of_int (py_int (real_of_int tw * mwr)) / real car_w)
                      (real_of_int (py_int (real_of_int th * mhr)) / real car_h) < 1"
      by (simp only: min_less_iff_disj not_less de_Morgan_disj)
    then show ?thesis
      using pos by (simp only: scale_car_to_fit_def sh Let_def split if_False) simp
  qed
  have "real car_w \<le> mwr * real_of_int tw \<and> real car_h \<le> mhr * real_of_int th"
    if "\<not> spec_scale_factor mwr mhr tw th car_w car_h < 1"
    using that pos by (simp add: spec_scale_factor_def le_divide_eq not_less)
  with fits show ?thesis by blast
qed

theorem scale_car_to_fit_unchanged_witness:
  "scale_car_to_fit cv2_identity [[(1, 2, 3), (4, 5, 6)]] [[255, 255]] 4 2 0.75 0.5
     = Inr ([[(1, 2, 3), (4, 5, 6)]], [[255, 255]])"
proof -
  have sh: "shape [[(1, 2, 3), (4, 5, 6)] :: pixel list] = (1, 2)"
    by (simp add: shape_def)
  have fit: "real 2 \<le> 0.75 * real_of_int 4 \<and> real 1 \<le> 0.5 * real_of_int 2"
    by simp
  from scale_car_to_fit_unchanged [OF sh, of "0.75" "0.5" 4 2 cv2_identity "[[255, 255]]"] fit
  show ?thesis by simp
qed

subsection \<open>Auto-position\<close>

text \<open>
  Claim C9, as stated, fails: the bottom edge of the subject is not at or above the horizon
  row. On a canvas of 1000 by 1000 with horizon fraction 1/2, a subject of 100 by 100 is
  placed at row 405, so its bottom edge is at row 505, five rows below the horizon row 500.
\<close>

theorem auto_position_car_below_horizon:
  "auto_position_car (1000, 1000) (100, 100) (1 / 2) = (450, 405)
   \<and> \<not> snd (auto_position_car (1000, 1000) (100, 100) (1 / 2)) + 100 \<le> py_int (1000 * (1 / 2))"
  by (simp add: auto_position_car_def py_int_def)

text \<open>
  Claim C9, amended. Auto-position centres the subject horizontally,
  \<open>x = (canvasWidth - subjectWidth) div 2\<close> (floor division), and places its bottom edge at
  row \<open>int(horizonFraction \<cdot> canvasHeight) + int(0.05 \<cdot> subjectHeight)\<close>: the nudge is
  downwards (towards larger rows), never upwards, and at most a twentieth of the subject's
  height. The default placement inside \<open>composite_final\<close> does the same with the horizon
  fraction fixed at 0.65 and a nudge of \<open>int(0.1 \<cdot> subjectHeight)\<close>.
\<close>

theorem auto_position_car_placement:
  assumes "0 \<le> car_h"
  shows "fst (auto_position_car (bg_w, bg_h) (car_w, car_h) r) = (bg_w - car_w) div 2
     \<and> snd (auto_position_car (bg_w, bg_h) (car_w, car_h) r) + car_h
          = py_int (real_of_int bg_h * r) + py_int (real_of_int car_h * 0.05)
     \<and> py_int (real_of_int bg_h * r) \<le> snd (auto_position_car (bg_w, bg_h) (car_w, car_h) r) + car_h
     \<and> real_of_int (snd (auto_position_car (bg_w, bg_h) (car_w, car_h) r) + car_h
          - py_int (real_of_int bg_h * r)) \<le> real_of_int car_h / 20
     \<and> fst (default_car_position bg_w bg_h car_w car_h) = (bg_w - car_w) div 2
     \<and> snd (default_car_position bg_w bg_h car_w car_h) + car_h
          = py_int (real_of_int bg_h * 0.65) + py_int (real_of_int car_h * 0.1)"
proof -
  have n: "0 \<le> py_int (real_of_int car_h * 0.05)"
    using assms by (intro py_int_nonneg) simp
  have u: "real_of_int (py_int (real_of_int car_h * 0.05)) \<le> real_of_int car_h / 20"
  proof -
    have "real_of_int \<lfloor>real_of_int car_h * 0.05\<rfloor> \<le> real_of_int car_h * 0.05"
      by (rule of_int_floor_le)
    then show ?thesis using assms by (simp add: py_int_def)
  qed
  show ?thesis
    using n u by (simp add: auto_position_car_def default_car_position_def Let_def)
qed

theorem auto_position_car_placement_witness:
  "fst (auto_position_car (1920, 1080) (400, 200) 0.65) = 760
   \<and> snd (auto_position_car (1920, 1080) (400, 200) 0.65) + 200 = 702 + 10"
proof -
  have "(0::int) \<le> 200" by simp
  from auto_position_car_placement [OF this, of 1920 1080 400 "0.65"]
  show ?thesis by (simp add: py_int_def)
qed

end
